theory Spec2Isabelle
  imports Main
begin

section \<open>Python values, exceptions and small built-ins\<close>

text \<open>
  The filter specifications reach \<open>search.py\<close> as decoded JSON: \<open>None\<close>, booleans,
  integers, strings, lists and dictionaries with string keys. A dictionary is kept as an
  association list, looked up at the first occurrence of a key. \<open>PTemporal\<close> stands for
  the date, time and interval objects that only \<open>string_to_datetime\<close> produces.
\<close>

datatype pyval =
    PNone
  | PBool bool
  | PInt int
  | PStr string
  | PList "pyval list"
  | PDict "(string \<times> pyval) list"
  | PTemporal string

text \<open>
  The exceptions the module can raise: the built-in ones, the module's own
  \<open>ComparisonToNull\<close>, the two that \<open>Query.one()\<close> raises, and the
  \<open>InvalidRequestError\<close> of \<open>has\<close> on a collection and of \<open>any\<close> on a scalar
  relationship.
\<close>

datatype error =
    KeyError
  | TypeError
  | AttributeError
  | ValueError
  | UnboundLocalError
  | ComparisonToNull
  | NoResultFound
  | MultipleResultsFound
  | InvalidRequestError

text \<open>Python truthiness, as used by \<open>relation or fieldname\<close> and \<open>if filt.otherfield\<close>.\<close>

fun truthy :: "pyval \<Rightarrow> bool" where
  "truthy PNone = False"
| "truthy (PBool b) = b"
| "truthy (PInt i) = (i \<noteq> 0)"
| "truthy (PStr s) = (s \<noteq> [])"
| "truthy (PList xs) = (xs \<noteq> [])"
| "truthy (PDict d) = (d \<noteq> [])"
| "truthy (PTemporal t) = True"

text \<open>\<open>key in d\<close> and \<open>d.get(key)\<close> on a dictionary.\<close>

definition has_key :: "(string \<times> pyval) list \<Rightarrow> string \<Rightarrow> bool" where
  "has_key d k = (map_of d k \<noteq> None)"

definition dict_get :: "(string \<times> pyval) list \<Rightarrow> string \<Rightarrow> pyval" where
  "dict_get d k = (case map_of d k of None \<Rightarrow> PNone | Some v \<Rightarrow> v)"

text \<open>\<open>sep in s\<close> on strings: the substring test.\<close>

fun contains :: "string \<Rightarrow> string \<Rightarrow> bool" where
  "contains sep [] = (sep = [])"
| "contains sep (c # cs) = (take (length sep) (c # cs) = sep \<or> contains sep cs)"

text \<open>
  \<open>s.split(sep)\<close> for a separator \<open>d # ds\<close>: the string is cut at each occurrence of
  the separator, found from left to right without overlap.
\<close>

fun split_acc :: "char \<Rightarrow> string \<Rightarrow> string \<Rightarrow> string \<Rightarrow> string list" where
  "split_acc d ds acc [] = [rev acc]"
| "split_acc d ds acc (c # cs) =
     (if take (Suc (length ds)) (c # cs) = d # ds
      then rev acc # split_acc d ds [] (drop (length ds) cs)
      else split_acc d ds (c # acc) cs)"

definition py_split :: "string \<Rightarrow> string \<Rightarrow> string list" where
  "py_split sep s = (case sep of [] \<Rightarrow> [s] | d # ds \<Rightarrow> split_acc d ds [] s)"

text \<open>
  \<open>sep in x\<close> for any value \<open>x\<close>: a substring test on a string, membership on a list,
  key membership on a dictionary, and a \<open>TypeError\<close> on a value that is not iterable.
\<close>

fun py_in :: "string \<Rightarrow> pyval \<Rightarrow> error + bool" where
  "py_in sep (PStr s) = Inr (contains sep s)"
| "py_in sep (PList xs) = Inr (PStr sep \<in> set xs)"
| "py_in sep (PDict d) = Inr (has_key d sep)"
| "py_in sep v = Inl TypeError"

text \<open>
  \<open>a, b = x.split(sep)\<close>: only a string has \<open>split\<close>, and the unpacking needs exactly
  two parts.
\<close>

fun split_pair :: "string \<Rightarrow> pyval \<Rightarrow> error + (string \<times> string)" where
  "split_pair sep (PStr s) =
     (case py_split sep s of [a, b] \<Rightarrow> Inr (a, b) | _ \<Rightarrow> Inl ValueError)"
| "split_pair sep v = Inl AttributeError"

text \<open>
  Iterating over a value: a list gives its elements, a dictionary its keys, a string its
  characters, anything else is not iterable.
\<close>

fun py_iter :: "pyval \<Rightarrow> error + pyval list" where
  "py_iter (PList xs) = Inr xs"
| "py_iter (PDict d) = Inr (map (\<lambda>kv. PStr (fst kv)) d)"
| "py_iter (PStr s) = Inr (map (\<lambda>c. PStr [c]) s)"
| "py_iter v = Inl TypeError"

text \<open>A list comprehension whose body may raise: the first exception ends it.\<close>

fun traverse :: "('a \<Rightarrow> error + 'b) \<Rightarrow> 'a list \<Rightarrow> error + 'b list" where
  "traverse f [] = Inr []"
| "traverse f (x # xs) =
     (case f x of
        Inl e \<Rightarrow> Inl e
      | Inr y \<Rightarrow> (case traverse f xs of Inl e \<Rightarrow> Inl e | Inr ys \<Rightarrow> Inr (y # ys)))"

lemma traverse_cong [fundef_cong]:
  "xs = ys \<Longrightarrow> (\<And>x. x \<in> set ys \<Longrightarrow> f x = g x) \<Longrightarrow> traverse f xs = traverse g ys"
  by (induction ys arbitrary: xs) (auto split: sum.splits)

section \<open>Models, attributes and SQL expressions\<close>

text \<open>
  A model class is known by its name. \<open>getattr(model, name)\<close> gives an attribute object,
  and \<open>_sub_operator\<close> asks of which class it is:
  \<^item> \<open>InstrumentedAttribute t\<close>: an instrumented attribute. Over a relationship,
    \<open>t\<close> holds the class that \<open>property.mapper.class_\<close> evaluates to and whether the
    relationship is to one object or to many (\<open>uselist\<close>); over a column, \<open>t\<close> is
    \<open>None\<close>: the property has no mapper, and that chain of attributes raises
    \<open>AttributeError\<close>;
  \<^item> \<open>AssociationProxy t c\<close>: an association proxy to the objects of a related
    model, with the model that \<open>get_related_association_proxy_model\<close> returns for
    it, and whether it stands for one object or for a collection;
  \<^item> \<open>OtherAttribute\<close>: an object of another class that has the methods of a
    queryable attribute (\<open>like\<close>, \<open>ilike\<close>, \<open>in_\<close>, \<open>has\<close>, \<open>any\<close>, \<open>asc\<close>,
    \<open>desc\<close>), as the attribute of a synonym has;
  \<^item> \<open>PlainObject\<close>: any other object (a string, a method, the metadata of the
    declarative base), on which the lookup of such a method raises \<open>AttributeError\<close>.
\<close>

type_synonym model = string

datatype cardinality = ToOne | ToMany

datatype attribute =
    InstrumentedAttribute "(model \<times> cardinality) option"
  | AssociationProxy model cardinality
  | OtherAttribute
  | PlainObject

fun queryable :: "attribute \<Rightarrow> bool" where
  "queryable PlainObject = False"
| "queryable a = True"

fun cardinality_of :: "attribute \<Rightarrow> cardinality option" where
  "cardinality_of (InstrumentedAttribute (Some (t, c))) = Some c"
| "cardinality_of (AssociationProxy t c) = Some c"
| "cardinality_of a = None"

datatype field = Field (owner: model) (key: string) (cls: attribute)

text \<open>The right-hand side of a comparison: a literal, or another attribute of the model.\<close>

datatype operand = Lit pyval | Col field

datatype comparator = Eq | Ne | Gt | Lt | Ge | Le | ILike | Like | In

text \<open>
  The SQL expressions the module builds: a comparison \<open>f <op> a\<close> (with \<open>f == None\<close> and
  \<open>f != None\<close> the null tests), the negation \<open>~e\<close>, \<open>f.has(e)\<close>, \<open>f.any(e)\<close>,
  \<open>and_(...)\<close> and \<open>or_(...)\<close>. The expressions are kept as they are written, also
  where the attribute is no column.
\<close>

datatype clause =
    Compare comparator field operand
  | Negate clause
  | Has field clause
  | Any field clause
  | And "clause list"
  | Or "clause list"

text \<open>
  What the module takes from outside \<open>search.py\<close>: the attributes of each model class
  (\<open>None\<close> where \<open>getattr\<close> raises \<open>AttributeError\<close>) and the helpers it imports.
\<close>

record env =
  attrs :: "model \<Rightarrow> string \<Rightarrow> attribute option"
  primary_key_names :: "model \<Rightarrow> string list"
  string_to_datetime :: "model \<Rightarrow> pyval \<Rightarrow> pyval \<Rightarrow> error + pyval"
  get_related_model :: "model \<Rightarrow> string \<Rightarrow> model option"

text \<open>\<open>getattr(model, name)\<close>: the name must be a string, and the attribute must exist.\<close>

fun getattr :: "env \<Rightarrow> model \<Rightarrow> pyval \<Rightarrow> error + field" where
  "getattr E m (PStr n) =
     (case attrs E m n of None \<Rightarrow> Inl AttributeError | Some a \<Rightarrow> Inr (Field m n a))"
| "getattr E m v = Inl TypeError"

section \<open>The operator table\<close>

text \<open>
  The lambdas of \<open>OPERATORS\<close>, one constructor for each body. The table keeps the
  source's 29 entries in their order.
\<close>

datatype opfunc =
    op_is_null | op_is_not_null
  | op_eq | op_ne | op_gt | op_lt | op_ge | op_le
  | op_ilike | op_like | op_in | op_not_in
  | op_has | op_any

definition OPERATORS :: "(string \<times> opfunc) list" where
  "OPERATORS =
    [(''is_null'', op_is_null),
     (''is_not_null'', op_is_not_null),
     (''=='', op_eq),
     (''eq'', op_eq),
     (''equals'', op_eq),
     (''equal_to'', op_eq),
     (''!='', op_ne),
     (''ne'', op_ne),
     (''neq'', op_ne),
     (''not_equal_to'', op_ne),
     (''does_not_equal'', op_ne),
     (''>'', op_gt),
     (''gt'', op_gt),
     (''<'', op_lt),
     (''lt'', op_lt),
     (''>='', op_ge),
     (''ge'', op_ge),
     (''gte'', op_ge),
     (''geq'', op_ge),
     (''<='', op_le),
     (''le'', op_le),
     (''lte'', op_le),
     (''leq'', op_le),
     (''ilike'', op_ilike),
     (''like'', op_like),
     (''in'', op_in),
     (''not_in'', op_not_in),
     (''has'', op_has),
     (''any'', op_any)]"

text \<open>
  \<open>OPERATORS[operator]\<close>: a \<open>KeyError\<close> for a key that is not in the table, a
  \<open>TypeError\<close> for a key that cannot be hashed (a list or a dictionary).
\<close>

fun lookup_operator :: "pyval \<Rightarrow> error + opfunc" where
  "lookup_operator (PStr s) =
     (case map_of OPERATORS s of None \<Rightarrow> Inl KeyError | Some f \<Rightarrow> Inr f)"
| "lookup_operator (PList xs) = Inl TypeError"
| "lookup_operator (PDict d) = Inl TypeError"
| "lookup_operator v = Inl KeyError"

text \<open>\<open>len(inspect.getargspec(opfunc).args)\<close>: the number of parameters of the lambda.\<close>

fun numargs :: "opfunc \<Rightarrow> nat" where
  "numargs op_is_null = 1"
| "numargs op_is_not_null = 1"
| "numargs op_has = 3"
| "numargs op_any = 3"
| "numargs f = 2"

text \<open>The keys of the table that share a lambda body, in the order of the table.\<close>

definition synonyms_of :: "opfunc \<Rightarrow> string list" where
  "synonyms_of f = map fst (filter (\<lambda>kv. snd kv = f) OPERATORS)"

text \<open>
  Calling a lambda with one, two or three arguments; a call with the wrong number of
  arguments raises \<open>TypeError\<close>. The bodies that call a method of the field
  (\<open>f.like(a)\<close>, \<open>f.ilike(a)\<close>, \<open>f.in_(a)\<close>) raise \<open>AttributeError\<close> on an object
  without the method. In \<open>f.has(_sub_operator(f, a, fn))\<close> Python looks \<open>f.has\<close> up,
  then calls \<open>_sub_operator\<close>, then calls the method: \<open>_create_operation\<close> below
  does the first two steps and \<open>call3\<close> the last. The method \<open>has\<close> raises
  \<open>InvalidRequestError\<close> on a collection, and \<open>any\<close> on a scalar relationship.
\<close>

fun call1 :: "opfunc \<Rightarrow> field \<Rightarrow> error + clause" where
  "call1 op_is_null f = Inr (Compare Eq f (Lit PNone))"
| "call1 op_is_not_null f = Inr (Compare Ne f (Lit PNone))"
| "call1 g f = Inl TypeError"

fun call2 :: "opfunc \<Rightarrow> field \<Rightarrow> operand \<Rightarrow> error + clause" where
  "call2 op_eq f a = Inr (Compare Eq f a)"
| "call2 op_ne f a = Inr (Compare Ne f a)"
| "call2 op_gt f a = Inr (Compare Gt f a)"
| "call2 op_lt f a = Inr (Compare Lt f a)"
| "call2 op_ge f a = Inr (Compare Ge f a)"
| "call2 op_le f a = Inr (Compare Le f a)"
| "call2 op_ilike f a =
     (if queryable (cls f) then Inr (Compare ILike f a) else Inl AttributeError)"
| "call2 op_like f a =
     (if queryable (cls f) then Inr (Compare Like f a) else Inl AttributeError)"
| "call2 op_in f a =
     (if queryable (cls f) then Inr (Compare In f a) else Inl AttributeError)"
| "call2 op_not_in f a =
     (if queryable (cls f) then Inr (Negate (Compare In f a)) else Inl AttributeError)"
| "call2 g f a = Inl TypeError"

fun call3 :: "opfunc \<Rightarrow> field \<Rightarrow> clause \<Rightarrow> error + clause" where
  "call3 op_has f sub =
     (if cardinality_of (cls f) = Some ToMany then Inl InvalidRequestError
      else Inr (Has f sub))"
| "call3 op_any f sub =
     (if cardinality_of (cls f) = Some ToOne then Inl InvalidRequestError
      else Inr (Any f sub))"
| "call3 g f sub = Inl TypeError"

section \<open>Compiling one operation\<close>

text \<open>
  The nested values of a dictionary are smaller than the dictionary: the recursion of
  \<open>_sub_operator\<close> and of \<open>Filter.from_dictionary\<close> ends.
\<close>

lemma size_map_of:
  "map_of d k = Some v \<Longrightarrow> size v < size_list (size_prod (\<lambda>_. 0) size) d"
  by (induction d) (auto split: if_splits)

lemma size_dict_get: "size (dict_get d k) < size (PDict d)"
  by (cases "map_of d k") (auto simp: dict_get_def dest: size_map_of)

lemma size_py_iter: "py_iter v = Inr xs \<Longrightarrow> x \<in> set xs \<Longrightarrow> size x \<le> size v"
proof (cases v)
  case (PList ys)
  assume "py_iter v = Inr xs" and "x \<in> set xs"
  with PList have "x \<in> set ys" by simp
  then have "size x \<le> size_list size ys" by (induction ys) auto
  with PList show ?thesis by simp
next
  case (PDict d)
  assume "py_iter v = Inr xs" and "x \<in> set xs"
  with PDict show ?thesis by auto
next
  case (PStr s)
  assume "py_iter v = Inr xs" and "x \<in> set xs"
  with PStr show ?thesis by auto
qed auto

lemma from_dictionary_decreases:
  "py_iter (dict_get d k) = Inr xs \<Longrightarrow> x \<in> set xs \<Longrightarrow> size x < size (PDict d)"
  using size_py_iter [of "dict_get d k" xs x] size_dict_get [of d k] by simp

fun operand_size :: "operand \<Rightarrow> nat" where
  "operand_size (Lit v) = size v"
| "operand_size (Col f) = 0"

lemma sub_operator_decreases:
  "2 * operand_size (Lit (dict_get d k)) + 1 < 2 * operand_size (Lit (PDict d))"
  using size_dict_get [of d k] by simp

text \<open>
  \<open>QueryBuilder._create_operation\<close> and \<open>_sub_operator\<close>, which call each other through
  the lambdas of \<open>has\<close> and \<open>any\<close>. In \<open>_sub_operator\<close> the class of the attribute
  decides \<open>submodel\<close>; in the last branch nothing is assigned, and the first use of
  \<open>submodel\<close> raises \<open>UnboundLocalError\<close>.
\<close>

function create_operation ::
    "env \<Rightarrow> model \<Rightarrow> pyval \<Rightarrow> pyval \<Rightarrow> operand \<Rightarrow> pyval \<Rightarrow> error + clause"
  and sub_operator :: "env \<Rightarrow> field \<Rightarrow> operand \<Rightarrow> pyval \<Rightarrow> error + clause"
where
  "create_operation E model fieldname operator argument relation =
     (case lookup_operator operator of
        Inl e \<Rightarrow> Inl e
      | Inr opf \<Rightarrow>
          (case getattr E model (if truthy relation then relation else fieldname) of
             Inl e \<Rightarrow> Inl e
           | Inr fld \<Rightarrow>
               if numargs opf = 1 then call1 opf fld
               else if argument = Lit PNone then Inl ComparisonToNull
               else if numargs opf = 2 then call2 opf fld argument
               else if \<not> queryable (cls fld) then Inl AttributeError
               else (case sub_operator E fld argument fieldname of
                       Inl e \<Rightarrow> Inl e
                     | Inr sub \<Rightarrow> call3 opf fld sub)))"
| "sub_operator E fld argument fieldname =
     (case (case cls fld of
              InstrumentedAttribute None \<Rightarrow> Inl AttributeError
            | InstrumentedAttribute (Some (t, c)) \<Rightarrow> Inr (Some t)
            | AssociationProxy t c \<Rightarrow> Inr (Some t)
            | _ \<Rightarrow> Inr None) of
        Inl e \<Rightarrow> Inl e
      | Inr submodel \<Rightarrow>
          (case argument of
             Lit (PDict d) \<Rightarrow>
               (case map_of d ''name'' of
                  None \<Rightarrow> Inl KeyError
                | Some fieldname' \<Rightarrow>
                    (case map_of d ''op'' of
                       None \<Rightarrow> Inl KeyError
                     | Some operator \<Rightarrow>
                         (case py_in ''__'' fieldname' of
                            Inl e \<Rightarrow> Inl e
                          | Inr delim \<Rightarrow>
                              (case (if delim
                                     then (case split_pair ''__'' fieldname' of
                                             Inl e \<Rightarrow> Inl e
                                           | Inr (a, b) \<Rightarrow> Inr (PStr a, PStr b))
                                     else Inr (fieldname', PNone)) of
                                 Inl e \<Rightarrow> Inl e
                               | Inr (fieldname'', relation) \<Rightarrow>
                                   (case submodel of
                                      None \<Rightarrow> Inl UnboundLocalError
                                    | Some sm \<Rightarrow>
                                        create_operation E sm fieldname'' operator
                                          (Lit (dict_get d ''val'')) relation)))))
           | _ \<Rightarrow>
               (case submodel of
                  None \<Rightarrow> Inl UnboundLocalError
                | Some sm \<Rightarrow>
                    (case getattr E sm fieldname of
                       Inl e \<Rightarrow> Inl e
                     | Inr f \<Rightarrow> Inr (Compare Eq f argument)))))"
  by pat_completeness auto
termination
  apply (relation "measure (\<lambda>x. case x of
          Inl (E, m, fieldname, operator, argument, relation) \<Rightarrow> 2 * operand_size argument + 1
        | Inr (E, fld, argument, fieldname) \<Rightarrow> 2 * operand_size argument)")
    apply simp
   apply simp
  apply (simp only: in_measure sum.case prod.case)
  apply (rule sub_operator_decreases)
  done

declare create_operation.simps [simp del]
declare sub_operator.simps [simp del]

section \<open>The filter tree\<close>

text \<open>
  The classes \<open>Filter\<close>, \<open>ConjunctionFilter\<close> and \<open>DisjunctionFilter\<close>. A \<open>Filter\<close> is
  a plain tuple of field name, operator, argument and other field: its constructor
  checks nothing.
\<close>

datatype filter =
    Filter pyval pyval pyval pyval
  | ConjunctionFilter "filter list"
  | DisjunctionFilter "filter list"

text \<open>
  \<open>Filter.from_dictionary\<close>. The tests \<open>'or' not in dictionary\<close> and \<open>dictionary.get\<close>
  need a dictionary: on a string or a list the membership test passes and \<open>get\<close> raises
  \<open>AttributeError\<close>, on any other value the membership test raises \<open>TypeError\<close>. The key
  \<open>'or'\<close> is looked for before the key \<open>'and'\<close>.
\<close>

function from_dictionary :: "env \<Rightarrow> model \<Rightarrow> pyval \<Rightarrow> error + filter" where
  "from_dictionary E model dictionary =
     (case dictionary of
        PDict d \<Rightarrow>
          if \<not> has_key d ''or'' \<and> \<not> has_key d ''and'' then
            (case string_to_datetime E model (dict_get d ''name'') (dict_get d ''val'') of
               Inl e \<Rightarrow> Inl e
             | Inr argument \<Rightarrow>
                 Inr (Filter (dict_get d ''name'') (dict_get d ''op'') argument
                        (dict_get d ''field'')))
          else if has_key d ''or'' then
            (case py_iter (dict_get d ''or'') of
               Inl e \<Rightarrow> Inl e
             | Inr subfilters \<Rightarrow>
                 (case traverse (from_dictionary E model) subfilters of
                    Inl e \<Rightarrow> Inl e
                  | Inr fs \<Rightarrow> Inr (DisjunctionFilter fs)))
          else
            (case py_iter (dict_get d ''and'') of
               Inl e \<Rightarrow> Inl e
             | Inr subfilters \<Rightarrow>
                 (case traverse (from_dictionary E model) subfilters of
                    Inl e \<Rightarrow> Inl e
                  | Inr fs \<Rightarrow> Inr (ConjunctionFilter fs)))
      | PStr s \<Rightarrow> Inl AttributeError
      | PList xs \<Rightarrow> Inl AttributeError
      | _ \<Rightarrow> Inl TypeError)"
  by pat_completeness auto
termination
  apply (relation "measure (\<lambda>(E, model, dictionary). size dictionary)")
    apply simp
   apply (simp only: in_measure prod.case)
   apply (erule (1) from_dictionary_decreases)
  apply (simp only: in_measure prod.case)
  apply (erule (1) from_dictionary_decreases)
  done

declare from_dictionary.simps [simp del]

section \<open>Compiling a filter\<close>

text \<open>
  \<open>QueryBuilder._create_filter\<close>. In a leaf the name is cut at \<open>'__'\<close> into relation
  and field name, in this order; \<open>and_\<close> and \<open>or_\<close> receive the compiled sub-filters.
\<close>

fun create_filter :: "env \<Rightarrow> model \<Rightarrow> filter \<Rightarrow> error + clause" where
  "create_filter E model (Filter fieldname operator argument otherfield) =
     (case py_in ''__'' fieldname of
        Inl e \<Rightarrow> Inl e
      | Inr delim \<Rightarrow>
          (case (if delim
                 then (case split_pair ''__'' fieldname of
                         Inl e \<Rightarrow> Inl e
                       | Inr (a, b) \<Rightarrow> Inr (PStr a, PStr b))
                 else Inr (PNone, fieldname)) of
             Inl e \<Rightarrow> Inl e
           | Inr (relation, fname) \<Rightarrow>
               (case (if truthy otherfield
                      then (case getattr E model otherfield of
                              Inl e \<Rightarrow> Inl e
                            | Inr f \<Rightarrow> Inr (Col f))
                      else Inr (Lit argument)) of
                  Inl e \<Rightarrow> Inl e
                | Inr val \<Rightarrow> create_operation E model fname operator val relation)))"
| "create_filter E model (ConjunctionFilter fs) =
     (case traverse (create_filter E model) fs of
        Inl e \<Rightarrow> Inl e
      | Inr cs \<Rightarrow> Inr (And cs))"
| "create_filter E model (DisjunctionFilter fs) =
     (case traverse (create_filter E model) fs of
        Inl e \<Rightarrow> Inl e
      | Inr cs \<Rightarrow> Inr (Or cs))"

text \<open>Parsing one filter specification and compiling the result.\<close>

definition compile :: "env \<Rightarrow> model \<Rightarrow> pyval \<Rightarrow> error + clause" where
  "compile E model dictionary =
     (case from_dictionary E model dictionary of
        Inl e \<Rightarrow> Inl e
      | Inr filt \<Rightarrow> create_filter E model filt)"

section \<open>Building the query\<close>

text \<open>
  A query object: the model it selects, and the clauses given to \<open>filter\<close>, \<open>join\<close>,
  \<open>order_by\<close> and \<open>group_by\<close>, each kind in the order of the calls.
\<close>

datatype ordering = Asc field | Desc field

record query =
  entity :: model
  criteria :: "clause list"
  joins :: "model list"
  order_clauses :: "ordering list"
  group_clauses :: "field list"

text \<open>
  \<open>getattr(field, direction_name)()\<close>, where the name is \<open>'asc'\<close> or \<open>'desc'\<close>; the
  primary keys are ordered by \<open>getattr(model, field).asc()\<close>.
\<close>

fun direction :: "string \<Rightarrow> field \<Rightarrow> error + ordering" where
  "direction direction_name f =
     (if \<not> queryable (cls f) then Inl AttributeError
      else if direction_name = ''asc'' then Inr (Asc f)
      else Inr (Desc f))"

text \<open>
  Modelled from the spec: \<open>session_query\<close> of \<open>helpers.py\<close>, the spec's
  \<open>base_query(model) -> ComposedQuery\<close>: the query on the model with no clause yet.
\<close>

definition session_query :: "model \<Rightarrow> query" where
  "session_query model =
     \<lparr>entity = model, criteria = [], joins = [], order_clauses = [], group_clauses = []\<rparr>"

text \<open>
  The loop over \<open>sort\<close>: pairs of a sign and a field name. \<open>get_related_model\<close>
  returns \<open>None\<close> for a name that is no relation, and \<open>getattr(None, ...)\<close> raises
  \<open>AttributeError\<close>.
\<close>

fun sort_loop :: "env \<Rightarrow> model \<Rightarrow> query \<Rightarrow> (string \<times> string) list \<Rightarrow> error + query" where
  "sort_loop E model q [] = Inr q"
| "sort_loop E model q ((symbol, field_name) # rest) =
     (if contains ''.'' field_name then
        (case py_split ''.'' field_name of
           [field_name', field_name_in_relation] \<Rightarrow>
             (case get_related_model E model field_name' of
                None \<Rightarrow> Inl AttributeError
              | Some relation_model \<Rightarrow>
                  (case getattr E relation_model (PStr field_name_in_relation) of
                     Inl e \<Rightarrow> Inl e
                   | Inr f \<Rightarrow>
                       (case direction (if symbol = ''+'' then ''asc'' else ''desc'') f of
                          Inl e \<Rightarrow> Inl e
                        | Inr d \<Rightarrow>
                            sort_loop E model
                              (q\<lparr>joins := joins q @ [relation_model],
                                 order_clauses := order_clauses q @ [d]\<rparr>) rest)))
         | _ \<Rightarrow> Inl ValueError)
      else
        (case getattr E model (PStr field_name) of
           Inl e \<Rightarrow> Inl e
         | Inr f \<Rightarrow>
             (case direction (if symbol = ''+'' then ''asc'' else ''desc'') f of
                Inl e \<Rightarrow> Inl e
              | Inr d \<Rightarrow>
                  sort_loop E model (q\<lparr>order_clauses := order_clauses q @ [d]\<rparr>) rest)))"

text \<open>The loop over \<open>group_by\<close>.\<close>

fun group_loop :: "env \<Rightarrow> model \<Rightarrow> query \<Rightarrow> string list \<Rightarrow> error + query" where
  "group_loop E model q [] = Inr q"
| "group_loop E model q (field_name # rest) =
     (if contains ''.'' field_name then
        (case py_split ''.'' field_name of
           [field_name', field_name_in_relation] \<Rightarrow>
             (case get_related_model E model field_name' of
                None \<Rightarrow> Inl AttributeError
              | Some relation_model \<Rightarrow>
                  (case getattr E relation_model (PStr field_name_in_relation) of
                     Inl e \<Rightarrow> Inl e
                   | Inr f \<Rightarrow>
                       group_loop E model
                         (q\<lparr>joins := joins q @ [relation_model],
                            group_clauses := group_clauses q @ [f]\<rparr>) rest))
         | _ \<Rightarrow> Inl ValueError)
      else
        (case getattr E model (PStr field_name) of
           Inl e \<Rightarrow> Inl e
         | Inr f \<Rightarrow> group_loop E model (q\<lparr>group_clauses := group_clauses q @ [f]\<rparr>) rest))"

text \<open>
  \<open>QueryBuilder.create_query\<close>: all the filters are parsed, then all are compiled, then
  the query is ordered (unless \<open>_ignore_order_by\<close>) and grouped. \<open>filters\<close> is iterated
  as it comes, so the default \<open>None\<close> raises \<open>TypeError\<close>; an absent or empty \<open>sort\<close>
  or \<open>group_by\<close> is false in an \<open>if\<close>.
\<close>

definition create_query ::
  "env \<Rightarrow> model \<Rightarrow> pyval \<Rightarrow> (string \<times> string) list option \<Rightarrow> string list option \<Rightarrow> bool
     \<Rightarrow> error + query" where
  "create_query E model filters sort' group_by ignore_order_by =
     (case py_iter filters of
        Inl e \<Rightarrow> Inl e
      | Inr specs \<Rightarrow>
          (case traverse (from_dictionary E model) specs of
             Inl e \<Rightarrow> Inl e
           | Inr parsed \<Rightarrow>
               (case traverse (create_filter E model) parsed of
                  Inl e \<Rightarrow> Inl e
                | Inr compiled \<Rightarrow>
                    (case (if \<not> ignore_order_by then
                             (case sort' of
                                Some (s # ss) \<Rightarrow>
                                  sort_loop E model
                                    ((session_query model)\<lparr>criteria := compiled\<rparr>) (s # ss)
                              | _ \<Rightarrow>
                                  (case traverse
                                          (\<lambda>n. case getattr E model (PStr n) of
                                                 Inl e \<Rightarrow> Inl e
                                               | Inr f \<Rightarrow> direction ''asc'' f)
                                          (primary_key_names E model) of
                                     Inl e \<Rightarrow> Inl e
                                   | Inr pk_order \<Rightarrow>
                                       Inr ((session_query model)
                                              \<lparr>criteria := compiled,
                                               order_clauses := pk_order\<rparr>)))
                           else Inr ((session_query model)\<lparr>criteria := compiled\<rparr>)) of
                       Inl e \<Rightarrow> Inl e
                     | Inr q \<Rightarrow>
                         (case group_by of
                            Some (g # gs) \<Rightarrow> group_loop E model q (g # gs)
                          | _ \<Rightarrow> Inr q)))))"

section \<open>Searching\<close>

text \<open>
  \<open>Query.one()\<close> on the rows the query gives when it is run; running a query is the
  work of the database, a parameter here.
\<close>

definition one :: "(query \<Rightarrow> 'r list) \<Rightarrow> query \<Rightarrow> error + 'r" where
  "one run q =
     (case run q of
        [] \<Rightarrow> Inl NoResultFound
      | [r] \<Rightarrow> Inr r
      | _ \<Rightarrow> Inl MultipleResultsFound)"

text \<open>\<open>search\<close> returns one instance of the model, or the query itself.\<close>

datatype 'r found = Instance 'r | Results query

definition search ::
  "(query \<Rightarrow> 'r list) \<Rightarrow> env \<Rightarrow> model \<Rightarrow> pyval \<Rightarrow> (string \<times> string) list option
     \<Rightarrow> string list option \<Rightarrow> bool \<Rightarrow> bool \<Rightarrow> error + 'r found" where
  "search run E model filters sort' group_by single ignore_order_by =
     (case create_query E model filters sort' group_by ignore_order_by of
        Inl e \<Rightarrow> Inl e
      | Inr q \<Rightarrow>
          if single
          then (case one run q of Inl e \<Rightarrow> Inl e | Inr r \<Rightarrow> Inr (Instance r))
          else Inr (Results q))"

section \<open>What a clause matches\<close>

text \<open>
  SQL has three truth values: \<open>Some True\<close>, \<open>Some False\<close> and \<open>None\<close> for unknown. The
  truth of a comparison on a row and the rows related to a row through a relationship
  belong to the database, a parameter here; \<open>has\<close> and \<open>any\<close> ask for a related row on
  which the nested clause is true. A \<open>WHERE\<close> clause keeps the rows on which it is true.

  An \<open>and_()\<close> or \<open>or_()\<close> of no clauses is rendered as nothing. Alone it
  constrains no row; inside another junction it is left out of the rendered clause.
  \<open>blank\<close> says that a clause is rendered as nothing: an empty junction, or a junction
  of such clauses only. \<open>proper\<close> says that no junction in a clause is empty: every
  junction in it has one sub-clause or more.

  One case is outside \<open>truth\<close>: a junction of two or more clauses that are all
  rendered as nothing is itself rendered as nothing where it stands alone, but set in
  parentheses inside another junction it leaves \<open>()\<close>, which is no SQL. \<open>truth\<close>
  treats it as rendered as nothing there too. The statements below on what a junction
  or a query matches are made for proper clauses, and the examples hold one empty
  junction at most.
\<close>

fun blank :: "clause \<Rightarrow> bool" where
  "blank (And es) = list_all blank es"
| "blank (Or es) = list_all blank es"
| "blank e = False"

fun proper :: "clause \<Rightarrow> bool" where
  "proper (Compare c f a) = True"
| "proper (Negate e) = proper e"
| "proper (Has f e) = proper e"
| "proper (Any f e) = proper e"
| "proper (And es) = (es \<noteq> [] \<and> list_all proper es)"
| "proper (Or es) = (es \<noteq> [] \<and> list_all proper es)"

record 'r semantics =
  compare_truth :: "comparator \<Rightarrow> field \<Rightarrow> operand \<Rightarrow> 'r \<Rightarrow> bool option"
  related_rows :: "field \<Rightarrow> 'r \<Rightarrow> 'r list"

fun and3 :: "bool option \<Rightarrow> bool option \<Rightarrow> bool option" where
  "and3 (Some False) y = Some False"
| "and3 x (Some False) = Some False"
| "and3 (Some True) (Some True) = Some True"
| "and3 x y = None"

fun or3 :: "bool option \<Rightarrow> bool option \<Rightarrow> bool option" where
  "or3 (Some True) y = Some True"
| "or3 x (Some True) = Some True"
| "or3 (Some False) (Some False) = Some False"
| "or3 x y = None"

fun truth :: "'r semantics \<Rightarrow> clause \<Rightarrow> 'r \<Rightarrow> bool option" where
  "truth S (Compare c f a) r = compare_truth S c f a r"
| "truth S (Negate e) r = map_option Not (truth S e r)"
| "truth S (Has f e) r = Some (list_ex (\<lambda>r'. truth S e r' = Some True) (related_rows S f r))"
| "truth S (Any f e) r = Some (list_ex (\<lambda>r'. truth S e r' = Some True) (related_rows S f r))"
| "truth S (And es) r =
     foldr and3 (map (\<lambda>e. truth S e r) (filter (\<lambda>e. \<not> blank e) es)) (Some True)"
| "truth S (Or es) r =
     (if list_all blank es then Some True
      else foldr or3 (map (\<lambda>e. truth S e r) (filter (\<lambda>e. \<not> blank e) es)) (Some False))"

definition matched :: "'r semantics \<Rightarrow> clause \<Rightarrow> 'r set" where
  "matched S e = {r. truth S e r = Some True}"

text \<open>
  \<open>query.filter(*filters)\<close> keeps the rows on which every criterion is true; a
  criterion that is rendered as nothing is true on every row.
\<close>

definition query_matched :: "'r semantics \<Rightarrow> query \<Rightarrow> 'r set" where
  "query_matched S q = {r. list_all (\<lambda>e. truth S e r = Some True) (criteria q)}"

section \<open>The models of the test suite\<close>

text \<open>
  The classes of \<open>tests/test_filtering.py\<close>: \<open>Person\<close> and \<open>Comment\<close> with the
  relationship \<open>author\<close> and its back reference \<open>comments\<close>, and \<open>Article\<close>, \<open>ArticleTag\<close>
  and \<open>Tag\<close> with the association proxy \<open>tags\<close>; and from \<open>tests/test_updating.py\<close>
  the classes \<open>User\<close>, \<open>UserKeyword\<close> and \<open>Keyword\<close>. The columns are instrumented
  attributes over a column property, which has no mapper; \<open>metadata\<close> is the class
  attribute of the declarative base, a plain object. One attribute is added to the
  classes of the tests: \<open>writer\<close>, a synonym of \<open>author\<close>, whose class attribute is
  queryable and is neither an instrumented attribute nor an association proxy. Values
  pass through \<open>string_to_datetime\<close> unchanged.
\<close>

definition test_attrs :: "model \<Rightarrow> string \<Rightarrow> attribute option" where
  "test_attrs m n =
     map_of
       [((''Person'', ''id''), InstrumentedAttribute None),
        ((''Person'', ''name''), InstrumentedAttribute None),
        ((''Person'', ''age''), InstrumentedAttribute None),
        ((''Person'', ''birthday''), InstrumentedAttribute None),
        ((''Person'', ''comments''), InstrumentedAttribute (Some (''Comment'', ToMany))),
        ((''Person'', ''metadata''), PlainObject),
        ((''Comment'', ''id''), InstrumentedAttribute None),
        ((''Comment'', ''content''), InstrumentedAttribute None),
        ((''Comment'', ''author_id''), InstrumentedAttribute None),
        ((''Comment'', ''author''), InstrumentedAttribute (Some (''Person'', ToOne))),
        ((''Comment'', ''writer''), OtherAttribute),
        ((''Comment'', ''metadata''), PlainObject),
        ((''Article'', ''id''), InstrumentedAttribute None),
        ((''Article'', ''tags''), AssociationProxy ''Tag'' ToMany),
        ((''Article'', ''articletags''),
           InstrumentedAttribute (Some (''ArticleTag'', ToMany))),
        ((''ArticleTag'', ''article_id''), InstrumentedAttribute None),
        ((''ArticleTag'', ''article''), InstrumentedAttribute (Some (''Article'', ToOne))),
        ((''ArticleTag'', ''tag_id''), InstrumentedAttribute None),
        ((''ArticleTag'', ''tag''), InstrumentedAttribute (Some (''Tag'', ToOne))),
        ((''ArticleTag'', ''id''), InstrumentedAttribute None),
        ((''Tag'', ''id''), InstrumentedAttribute None),
        ((''Tag'', ''name''), InstrumentedAttribute None),
        ((''User'', ''id''), InstrumentedAttribute None),
        ((''UserKeyword'', ''special_key''), InstrumentedAttribute None),
        ((''UserKeyword'', ''user_id''), InstrumentedAttribute None),
        ((''UserKeyword'', ''user''), InstrumentedAttribute (Some (''User'', ToOne))),
        ((''UserKeyword'', ''keyword_id''), InstrumentedAttribute None),
        ((''UserKeyword'', ''keyword''), InstrumentedAttribute (Some (''Keyword'', ToOne))),
        ((''UserKeyword'', ''id''), InstrumentedAttribute None),
        ((''Keyword'', ''id''), InstrumentedAttribute None),
        ((''Keyword'', ''keyword''), InstrumentedAttribute None)]
       (m, n)"

text \<open>
  \<open>declared_primary_keys\<close> gives the primary-key columns of each class in the order in
  which the class declares them: \<open>UserKeyword\<close> declares \<open>user_id\<close> before
  \<open>keyword_id\<close>. \<open>test_primary_keys\<close> stands for the helper \<open>primary_key_names\<close>,
  which walks the members of the class as \<open>inspect.getmembers\<close> lists them, sorted
  by name.
\<close>

definition declared_primary_keys :: "model \<Rightarrow> string list" where
  "declared_primary_keys m =
     (if m = ''ArticleTag'' then [''article_id'', ''tag_id'']
      else if m = ''UserKeyword'' then [''user_id'', ''keyword_id'']
      else [''id''])"

definition test_primary_keys :: "model \<Rightarrow> string list" where
  "test_primary_keys m =
     (if m = ''ArticleTag'' then [''article_id'', ''tag_id'']
      else if m = ''UserKeyword'' then [''keyword_id'', ''user_id'']
      else [''id''])"

definition test_related_model :: "model \<Rightarrow> string \<Rightarrow> model option" where
  "test_related_model m n =
     (case test_attrs m n of
        Some (InstrumentedAttribute (Some (t, c))) \<Rightarrow> Some t
      | Some (AssociationProxy t c) \<Rightarrow> Some t
      | _ \<Rightarrow> None)"

definition test_env :: env where
  "test_env =
     \<lparr>attrs = test_attrs,
      primary_key_names = test_primary_keys,
      string_to_datetime = (\<lambda>m n v. Inr v),
      get_related_model = test_related_model\<rparr>"

text \<open>
  A small database for the examples: a row gives the value of each column by name,
  integers compare as integers, a comparison with \<open>None\<close> is the null test, and every
  other comparison is unknown. \<open>leaf\<close> writes a filter specification with the keys
  \<open>name\<close>, \<open>op\<close> and \<open>val\<close>, and \<open>column\<close> is the attribute of a plain column.
\<close>

type_synonym row = "string \<Rightarrow> pyval"

definition test_compare :: "comparator \<Rightarrow> field \<Rightarrow> operand \<Rightarrow> row \<Rightarrow> bool option" where
  "test_compare c f a r =
     (case (r (key f), a) of
        (PInt x, Lit (PInt y)) \<Rightarrow>
          (case c of
             Eq \<Rightarrow> Some (x = y) | Ne \<Rightarrow> Some (x \<noteq> y)
           | Gt \<Rightarrow> Some (x > y) | Lt \<Rightarrow> Some (x < y)
           | Ge \<Rightarrow> Some (x \<ge> y) | Le \<Rightarrow> Some (x \<le> y)
           | _ \<Rightarrow> None)
      | (v, Lit PNone) \<Rightarrow>
          (case c of Eq \<Rightarrow> Some (v = PNone) | Ne \<Rightarrow> Some (v \<noteq> PNone) | _ \<Rightarrow> None)
      | _ \<Rightarrow> None)"

definition test_semantics :: "row semantics" where
  "test_semantics = \<lparr>compare_truth = test_compare, related_rows = (\<lambda>f r. [])\<rparr>"

definition leaf :: "string \<Rightarrow> string \<Rightarrow> pyval \<Rightarrow> pyval" where
  "leaf n oper v = PDict [(''name'', PStr n), (''op'', PStr oper), (''val'', v)]"

definition column :: "model \<Rightarrow> string \<Rightarrow> field" where
  "column m n = Field m n (InstrumentedAttribute None)"

definition test_row :: row where
  "test_row = (\<lambda>k. PNone)(''id'' := PInt 1, ''age'' := PInt 10)"

text \<open>
  Running a query on a table keeps the rows on which every criterion is true (the
  order of the rows is left as it is). \<open>person i\<close> is a row of \<open>Person\<close> with this
  \<open>id\<close> and every other column null.
\<close>

definition test_run :: "row list \<Rightarrow> query \<Rightarrow> row list" where
  "test_run table q =
     filter (\<lambda>r. list_all (\<lambda>e. truth test_semantics e r = Some True) (criteria q)) table"

definition person :: "int \<Rightarrow> row" where
  "person i = (\<lambda>k. PNone)(''id'' := PInt i)"

section \<open>List comprehensions and junctions\<close>

text \<open>
  A comprehension succeeds exactly when its body succeeds on every element, and then
  gives the results in order. Parsing all the sub-filters and then compiling them all
  succeeds exactly when each sub-filter can be parsed and compiled.
\<close>

lemma traverse_Inr_D:
  "traverse f xs = Inr ys \<Longrightarrow> list_all2 (\<lambda>x y. f x = Inr y) xs ys"
  by (induction xs arbitrary: ys) (auto split: sum.splits)

lemma traverse_Inr_I:
  "list_all2 (\<lambda>x y. f x = Inr y) xs ys \<Longrightarrow> traverse f xs = Inr ys"
  by (induction xs ys rule: list_all2_induct) auto

lemma traverse_Inr_iff:
  "(traverse f xs = Inr ys) = list_all2 (\<lambda>x y. f x = Inr y) xs ys"
  using traverse_Inr_D traverse_Inr_I by blast

lemma traverse_twice:
  "((case traverse f xs of Inl e \<Rightarrow> Inl e | Inr ys \<Rightarrow> traverse g ys) = Inr zs) =
   list_all2 (\<lambda>x z. (case f x of Inl e \<Rightarrow> Inl e | Inr y \<Rightarrow> g y) = Inr z) xs zs"
proof -
  let ?F = "\<lambda>x y. f x = Inr y" and ?G = "\<lambda>y z. g y = Inr z"
  have "((case traverse f xs of Inl e \<Rightarrow> Inl e | Inr ys \<Rightarrow> traverse g ys) = Inr zs) =
      (\<exists>ys. traverse f xs = Inr ys \<and> traverse g ys = Inr zs)"
    by (simp split: sum.splits)
  also have "\<dots> = (list_all2 ?F OO list_all2 ?G) xs zs"
    by (auto simp: traverse_Inr_iff OO_def)
  also have "\<dots> = list_all2 (?F OO ?G) xs zs"
    by (simp add: list.rel_compp)
  also have "?F OO ?G = (\<lambda>x z. (case f x of Inl e \<Rightarrow> Inl e | Inr y \<Rightarrow> g y) = Inr z)"
    by (auto simp: fun_eq_iff OO_def split: sum.splits)
  finally show ?thesis .
qed

lemma compile_children:
  "list_all2 (\<lambda>x z. (case from_dictionary E model x of
                         Inl e \<Rightarrow> Inl e | Inr y \<Rightarrow> create_filter E model y) = Inr z) ds cs =
   list_all2 (\<lambda>x c. compile E model x = Inr c) ds cs"
  by (simp add: compile_def)

lemma compile_junction:
  assumes "from_dictionary E model (PDict d) =
      (case traverse (from_dictionary E model) ds of
         Inl e \<Rightarrow> Inl e | Inr fs \<Rightarrow> Inr (J fs))"
    and "\<And>fs. create_filter E model (J fs) =
      (case traverse (create_filter E model) fs of Inl e \<Rightarrow> Inl e | Inr cs \<Rightarrow> Inr (K cs))"
  shows "(compile E model (PDict d) = Inr p) =
     (\<exists>cs. list_all2 (\<lambda>x c. compile E model x = Inr c) ds cs \<and> p = K cs)"
proof -
  define X where "X = (case traverse (from_dictionary E model) ds of
      Inl e \<Rightarrow> Inl e | Inr fs \<Rightarrow> traverse (create_filter E model) fs)"
  have "compile E model (PDict d) = (case X of Inl e \<Rightarrow> Inl e | Inr cs \<Rightarrow> Inr (K cs))"
    unfolding compile_def X_def assms(1) by (simp add: assms(2) split: sum.splits)
  then have "(compile E model (PDict d) = Inr p) = (\<exists>cs. X = Inr cs \<and> p = K cs)"
    by (cases X) auto
  also have "\<dots> = (\<exists>cs. list_all2 (\<lambda>x c. compile E model x = Inr c) ds cs \<and> p = K cs)"
    unfolding X_def traverse_twice compile_children ..
  finally show ?thesis .
qed

lemma compile_or:
  assumes "map_of d ''or'' = Some (PList ds)"
  shows "(compile E model (PDict d) = Inr p) =
     (\<exists>cs. list_all2 (\<lambda>x c. compile E model x = Inr c) ds cs \<and> p = Or cs)"
proof (rule compile_junction)
  show "from_dictionary E model (PDict d) =
      (case traverse (from_dictionary E model) ds of
         Inl e \<Rightarrow> Inl e | Inr fs \<Rightarrow> Inr (DisjunctionFilter fs))"
    using assms by (subst from_dictionary.simps) (simp add: has_key_def dict_get_def)
qed simp

lemma compile_and:
  assumes "map_of d ''or'' = None" and "map_of d ''and'' = Some (PList ds)"
  shows "(compile E model (PDict d) = Inr p) =
     (\<exists>cs. list_all2 (\<lambda>x c. compile E model x = Inr c) ds cs \<and> p = And cs)"
proof (rule compile_junction)
  show "from_dictionary E model (PDict d) =
      (case traverse (from_dictionary E model) ds of
         Inl e \<Rightarrow> Inl e | Inr fs \<Rightarrow> Inr (ConjunctionFilter fs))"
    using assms by (subst from_dictionary.simps) (simp add: has_key_def dict_get_def)
qed simp

lemma and3_True: "(and3 x y = Some True) = (x = Some True \<and> y = Some True)"
  by (induction x y rule: and3.induct) auto

lemma or3_True: "(or3 x y = Some True) = (x = Some True \<or> y = Some True)"
  by (induction x y rule: or3.induct) auto

lemma foldr_and3: "(foldr and3 xs (Some True) = Some True) = (\<forall>x\<in>set xs. x = Some True)"
  by (induction xs) (simp_all add: and3_True)

lemma foldr_or3: "(foldr or3 xs (Some False) = Some True) = (\<exists>x\<in>set xs. x = Some True)"
  by (induction xs) (auto simp: or3_True)

lemma proper_not_blank: "proper e \<Longrightarrow> \<not> blank e"
proof (induction e)
  case (And es)
  then obtain x where "x \<in> set es" and "proper x"
    by (cases es) (auto simp: list_all_iff)
  with And.IH show ?case by (auto simp: list_all_iff)
next
  case (Or es)
  then obtain x where "x \<in> set es" and "proper x"
    by (cases es) (auto simp: list_all_iff)
  with Or.IH show ?case by (auto simp: list_all_iff)
qed simp_all

lemma filter_proper: "list_all proper cs \<Longrightarrow> filter (\<lambda>e. \<not> blank e) cs = cs"
  by (simp add: list_all_iff proper_not_blank)

lemma proper_not_all_blank: "cs \<noteq> [] \<Longrightarrow> list_all proper cs \<Longrightarrow> \<not> list_all blank cs"
  by (cases cs) (auto simp: proper_not_blank)

lemma matched_And:
  "list_all proper cs \<Longrightarrow> matched S (And cs) = (\<Inter>c\<in>set cs. matched S c)"
  by (auto simp: matched_def foldr_and3 filter_proper)

lemma matched_Or:
  "cs \<noteq> [] \<Longrightarrow> list_all proper cs \<Longrightarrow> matched S (Or cs) = (\<Union>c\<in>set cs. matched S c)"
  by (force simp: matched_def foldr_or3 filter_proper proper_not_all_blank)

lemma query_matched_criteria: "query_matched S q = (\<Inter>c\<in>set (criteria q). matched S c)"
  by (auto simp: query_matched_def matched_def list_all_iff)

section \<open>The query keeps the compiled filters\<close>

lemma sort_loop_criteria: "sort_loop E m q xs = Inr q' \<Longrightarrow> criteria q' = criteria q"
  by (induction E m q xs rule: sort_loop.induct)
     (auto split: if_splits sum.splits option.splits list.splits)

lemma group_loop_criteria: "group_loop E m q xs = Inr q' \<Longrightarrow> criteria q' = criteria q"
  by (induction E m q xs rule: group_loop.induct)
     (auto split: if_splits sum.splits option.splits list.splits)

lemma group_loop_order: "group_loop E m q xs = Inr q' \<Longrightarrow> order_clauses q' = order_clauses q"
  by (induction E m q xs rule: group_loop.induct)
     (auto split: if_splits sum.splits option.splits list.splits)


lemma create_query_parts:
  assumes "create_query E model filters srt grp ign = Inr q"
  shows "\<exists>specs compiled.
     py_iter filters = Inr specs \<and>
     (case traverse (from_dictionary E model) specs of
        Inl e \<Rightarrow> Inl e | Inr parsed \<Rightarrow> traverse (create_filter E model) parsed) = Inr compiled \<and>
     criteria q = compiled"
proof -
  obtain specs where a: "py_iter filters = Inr specs"
    using assms by (cases "py_iter filters") (simp_all add: create_query_def)
  obtain parsed where b: "traverse (from_dictionary E model) specs = Inr parsed"
    using assms a by (cases "traverse (from_dictionary E model) specs") (simp_all add: create_query_def)
  obtain compiled where c: "traverse (create_filter E model) parsed = Inr compiled"
    using assms a b by (cases "traverse (create_filter E model) parsed") (simp_all add: create_query_def)
  let ?base = "(session_query model)\<lparr>criteria := compiled\<rparr>"
  define ordered where "ordered =
    (if \<not> ign then
       (case srt of
          Some (s # ss) \<Rightarrow> sort_loop E model ?base (s # ss)
        | _ \<Rightarrow>
            (case traverse
                    (\<lambda>n. case getattr E model (PStr n) of
                           Inl e \<Rightarrow> Inl e
                         | Inr f \<Rightarrow> direction ''asc'' f)
                    (primary_key_names E model) of
               Inl e \<Rightarrow> Inl e
             | Inr pk_order \<Rightarrow>
                 Inr ((session_query model)\<lparr>criteria := compiled, order_clauses := pk_order\<rparr>)))
     else Inr ?base)"
  have d: "create_query E model filters srt grp ign =
      (case ordered of
         Inl e \<Rightarrow> Inl e
       | Inr q0 \<Rightarrow> (case grp of Some (g # gs) \<Rightarrow> group_loop E model q0 (g # gs) | _ \<Rightarrow> Inr q0))"
    by (simp add: create_query_def a b c ordered_def)
  then obtain q0 where e: "ordered = Inr q0"
    and f: "(case grp of Some (g # gs) \<Rightarrow> group_loop E model q0 (g # gs) | _ \<Rightarrow> Inr q0) = Inr q"
    using assms by (cases ordered) simp_all
  have "criteria q0 = compiled"
    using e unfolding ordered_def
    by (auto simp del: sort_loop.simps split: if_splits option.splits list.splits sum.splits
          dest: sort_loop_criteria simp: session_query_def)
  moreover have "criteria q = criteria q0"
    using f by (auto simp del: group_loop.simps split: option.splits list.splits
                   dest: group_loop_criteria)
  ultimately show ?thesis using a b c by simp
qed


lemma create_query_criteria:
  assumes "create_query E model filters srt grp ign = Inr q"
  shows "\<exists>specs. py_iter filters = Inr specs \<and>
     list_all2 (\<lambda>x c. compile E model x = Inr c) specs (criteria q)"
  using create_query_parts [OF assms] unfolding traverse_twice compile_children by auto

section \<open>Evaluating the examples\<close>

lemmas evaluation =
  compile_def from_dictionary.simps create_operation.simps sub_operator.simps
  has_key_def dict_get_def py_split_def OPERATORS_def
  test_env_def test_attrs_def test_primary_keys_def test_related_model_def
  leaf_def column_def

lemma compile_leaf_ge:
  "compile test_env ''Person'' (leaf ''age'' ''ge'' (PInt 10)) =
     Inr (Compare Ge (column ''Person'' ''age'') (Lit (PInt 10)))"
  by (simp add: evaluation)

lemma compile_leaf_lt:
  "compile test_env ''Person'' (leaf ''age'' ''lt'' (PInt 10)) =
     Inr (Compare Lt (column ''Person'' ''age'') (Lit (PInt 10)))"
  by (simp add: evaluation)

lemma create_query_two_leaves:
  "create_query test_env ''Person''
     (PList [leaf ''age'' ''ge'' (PInt 10), leaf ''age'' ''lt'' (PInt 10)]) None None False =
   Inr \<lparr>entity = ''Person'',
        criteria = [Compare Ge (column ''Person'' ''age'') (Lit (PInt 10)),
                    Compare Lt (column ''Person'' ''age'') (Lit (PInt 10))],
        joins = [],
        order_clauses = [Asc (column ''Person'' ''id'')],
        group_clauses = []\<rparr>"
  by (simp add: create_query_def session_query_def evaluation)

section \<open>Junctions and the top-level filters\<close>

lemma compile_empty_and:
  "compile test_env ''Person'' (PDict [(''and'', PList [])]) = Inr (And [])"
  by (simp add: evaluation)

lemma compile_or_empty_and:
  "compile test_env ''Person''
     (PDict [(''or'', PList [PDict [(''and'', PList [])], leaf ''age'' ''lt'' (PInt 10)])]) =
   Inr (Or [And [], Compare Lt (column ''Person'' ''age'') (Lit (PInt 10))])"
  by (simp add: evaluation)

text \<open>
  The \<open>'or'\<close> list below has two sub-filters, and the first is a junction of no
  sub-filters, which nothing rejects. Alone the first compiles to \<open>and_()\<close>, which
  constrains no row, so that the union of what the two sub-filters match holds every
  row. Inside \<open>or_\<close> the empty \<open>and_()\<close> is left out, and the compiled clause matches
  only the persons younger than 10: a person of age 10 is in the union and does not
  match the compiled clause.
\<close>

theorem junction_empty_child_counterexample:
  "compile test_env ''Person''
     (PDict [(''or'', PList [PDict [(''and'', PList [])], leaf ''age'' ''lt'' (PInt 10)])]) =
     Inr (Or [And [], Compare Lt (column ''Person'' ''age'') (Lit (PInt 10))])
   \<and> compile test_env ''Person'' (PDict [(''and'', PList [])]) = Inr (And [])
   \<and> compile test_env ''Person'' (leaf ''age'' ''lt'' (PInt 10)) =
     Inr (Compare Lt (column ''Person'' ''age'') (Lit (PInt 10)))
   \<and> test_row \<in> matched test_semantics (And []) \<union>
                 matched test_semantics (Compare Lt (column ''Person'' ''age'') (Lit (PInt 10)))
   \<and> test_row \<notin> matched test_semantics
                    (Or [And [], Compare Lt (column ''Person'' ''age'') (Lit (PInt 10))])"
proof -
  have "test_row \<in> matched test_semantics (And [])"
    by (simp add: matched_def)
  moreover have "test_row \<notin> matched test_semantics
      (Or [And [], Compare Lt (column ''Person'' ''age'') (Lit (PInt 10))])"
    by (simp add: matched_def test_semantics_def test_compare_def test_row_def column_def)
  ultimately show ?thesis
    using compile_or_empty_and compile_empty_and compile_leaf_lt by simp
qed

text \<open>
  C1, amended. For a dictionary whose \<open>'or'\<close> key maps to a list of one or more
  sub-filters, and for a dictionary without an \<open>'or'\<close> key whose \<open>'and'\<close> key maps to
  such a list, parsing and compiling succeeds exactly when every sub-filter can be
  parsed and compiled, and the result is the \<open>or_\<close> (the \<open>and_\<close>) of the compiled
  sub-filters, in order. When no junction inside the compiled sub-filters is empty, an
  \<open>and_\<close> of one or more of them matches the intersection of the sets of rows they
  match, and an \<open>or_\<close> their union. When \<open>create_query\<close> returns a query for a list of
  filters, the criteria of the query are the compiled filters of the list, in order,
  and, when no junction inside them is empty, the query matches the rows that all of
  them match.
\<close>

theorem junction_matches_children:
  "(map_of d ''or'' = Some (PList ds) \<and> ds \<noteq> [] \<longrightarrow>
      (compile E model (PDict d) = Inr p) =
      (\<exists>cs. list_all2 (\<lambda>x c. compile E model x = Inr c) ds cs \<and> p = Or cs))
   \<and> (map_of d ''or'' = None \<and> map_of d ''and'' = Some (PList ds) \<and> ds \<noteq> [] \<longrightarrow>
      (compile E model (PDict d) = Inr p) =
      (\<exists>cs. list_all2 (\<lambda>x c. compile E model x = Inr c) ds cs \<and> p = And cs))
   \<and> (cs \<noteq> [] \<and> list_all proper cs \<longrightarrow>
      matched S (And cs) = (\<Inter>c\<in>set cs. matched S c) \<and>
      matched S (Or cs) = (\<Union>c\<in>set cs. matched S c))
   \<and> (create_query E model (PList fs) srt grp ign = Inr q \<longrightarrow>
      list_all2 (\<lambda>x c. compile E model x = Inr c) fs (criteria q) \<and>
      (list_all proper (criteria q) \<longrightarrow>
         query_matched S q = (\<Inter>c\<in>set (criteria q). matched S c)))"
proof (intro conjI impI)
  assume "map_of d ''or'' = Some (PList ds) \<and> ds \<noteq> []"
  then show "(compile E model (PDict d) = Inr p) =
      (\<exists>cs. list_all2 (\<lambda>x c. compile E model x = Inr c) ds cs \<and> p = Or cs)"
    by (simp add: compile_or)
next
  assume "map_of d ''or'' = None \<and> map_of d ''and'' = Some (PList ds) \<and> ds \<noteq> []"
  then show "(compile E model (PDict d) = Inr p) =
      (\<exists>cs. list_all2 (\<lambda>x c. compile E model x = Inr c) ds cs \<and> p = And cs)"
    by (simp add: compile_and)
next
  assume "cs \<noteq> [] \<and> list_all proper cs"
  then show "matched S (And cs) = (\<Inter>c\<in>set cs. matched S c)"
    by (simp add: matched_And)
next
  assume "cs \<noteq> [] \<and> list_all proper cs"
  then show "matched S (Or cs) = (\<Union>c\<in>set cs. matched S c)"
    by (simp add: matched_Or)
next
  assume "create_query E model (PList fs) srt grp ign = Inr q"
  from create_query_criteria [OF this]
  show "list_all2 (\<lambda>x c. compile E model x = Inr c) fs (criteria q)"
    by simp
next
  show "query_matched S q = (\<Inter>c\<in>set (criteria q). matched S c)"
    by (rule query_matched_criteria)
qed

theorem junction_matches_children_witness:
  "compile test_env ''Person''
     (PDict [(''or'', PList [leaf ''age'' ''ge'' (PInt 10), leaf ''age'' ''lt'' (PInt 10)])]) =
     Inr (Or [Compare Ge (column ''Person'' ''age'') (Lit (PInt 10)),
              Compare Lt (column ''Person'' ''age'') (Lit (PInt 10))])
   \<and> compile test_env ''Person''
     (PDict [(''and'', PList [leaf ''age'' ''ge'' (PInt 10), leaf ''age'' ''lt'' (PInt 10)])]) =
     Inr (And [Compare Ge (column ''Person'' ''age'') (Lit (PInt 10)),
               Compare Lt (column ''Person'' ''age'') (Lit (PInt 10))])
   \<and> matched test_semantics
       (And [Compare Ge (column ''Person'' ''age'') (Lit (PInt 10)),
             Compare Lt (column ''Person'' ''age'') (Lit (PInt 10))]) =
     matched test_semantics (Compare Ge (column ''Person'' ''age'') (Lit (PInt 10))) \<inter>
     matched test_semantics (Compare Lt (column ''Person'' ''age'') (Lit (PInt 10)))
   \<and> matched test_semantics
       (Or [Compare Ge (column ''Person'' ''age'') (Lit (PInt 10)),
            Compare Lt (column ''Person'' ''age'') (Lit (PInt 10))]) =
     matched test_semantics (Compare Ge (column ''Person'' ''age'') (Lit (PInt 10))) \<union>
     matched test_semantics (Compare Lt (column ''Person'' ''age'') (Lit (PInt 10)))
   \<and> query_matched test_semantics
       \<lparr>entity = ''Person'',
        criteria = [Compare Ge (column ''Person'' ''age'') (Lit (PInt 10)),
                    Compare Lt (column ''Person'' ''age'') (Lit (PInt 10))],
        joins = [],
        order_clauses = [Asc (column ''Person'' ''id'')],
        group_clauses = []\<rparr> =
     matched test_semantics (Compare Ge (column ''Person'' ''age'') (Lit (PInt 10))) \<inter>
     matched test_semantics (Compare Lt (column ''Person'' ''age'') (Lit (PInt 10)))"
  using
    junction_matches_children
      [where d = "[(''or'', PList [leaf ''age'' ''ge'' (PInt 10), leaf ''age'' ''lt'' (PInt 10)])]"
        and ds = "[leaf ''age'' ''ge'' (PInt 10), leaf ''age'' ''lt'' (PInt 10)]"
        and p = "Or [Compare Ge (column ''Person'' ''age'') (Lit (PInt 10)),
                     Compare Lt (column ''Person'' ''age'') (Lit (PInt 10))]"
        and cs = "[Compare Ge (column ''Person'' ''age'') (Lit (PInt 10)),
                   Compare Lt (column ''Person'' ''age'') (Lit (PInt 10))]"
        and S = test_semantics and E = test_env and model = "''Person''"
        and fs = "[leaf ''age'' ''ge'' (PInt 10), leaf ''age'' ''lt'' (PInt 10)]"
        and srt = None and grp = None and ign = False
        and q = "\<lparr>entity = ''Person'',
        criteria = [Compare Ge (column ''Person'' ''age'') (Lit (PInt 10)),
                    Compare Lt (column ''Person'' ''age'') (Lit (PInt 10))],
        joins = [],
        order_clauses = [Asc (column ''Person'' ''id'')],
        group_clauses = []\<rparr>"]
    junction_matches_children
      [where d = "[(''and'', PList [leaf ''age'' ''ge'' (PInt 10), leaf ''age'' ''lt'' (PInt 10)])]"
        and ds = "[leaf ''age'' ''ge'' (PInt 10), leaf ''age'' ''lt'' (PInt 10)]"
        and p = "And [Compare Ge (column ''Person'' ''age'') (Lit (PInt 10)),
                      Compare Lt (column ''Person'' ''age'') (Lit (PInt 10))]"
        and cs = "[Compare Ge (column ''Person'' ''age'') (Lit (PInt 10))]"
        and S = test_semantics and E = test_env and model = "''Person''"
        and fs = "[]" and srt = None and grp = None and ign = True
        and q = "session_query ''Person''"]
    compile_leaf_ge compile_leaf_lt create_query_two_leaves
  by simp

section \<open>Operator synonyms\<close>

lemma OPERATORS_distinct: "distinct (map fst OPERATORS)"
  by (simp add: OPERATORS_def)

lemma synonym_lookup: "s \<in> set (synonyms_of f) \<Longrightarrow> map_of OPERATORS s = Some f"
  using OPERATORS_distinct by (auto simp: synonyms_of_def)

lemma create_operation_operator:
  "lookup_operator operator = lookup_operator operator' \<Longrightarrow>
   create_operation E model fieldname operator argument relation =
   create_operation E model fieldname operator' argument relation"
  by (simp add: create_operation.simps)

lemma create_filter_operator:
  assumes "lookup_operator operator = lookup_operator operator'"
  shows "create_filter E model (Filter fieldname operator argument otherfield) =
         create_filter E model (Filter fieldname operator' argument otherfield)"
  unfolding create_filter.simps create_operation_operator [OF assms] ..

lemma dict_get_Cons: "dict_get ((k, v) # d) k' = (if k' = k then v else dict_get d k')"
  by (simp add: dict_get_def)

lemma has_key_Cons: "has_key ((k, v) # d) k' = (k' = k \<or> has_key d k')"
  by (simp add: has_key_def)

lemma from_dictionary_operator:
  "from_dictionary E model (PDict ((''op'', operator) # d)) =
     (if \<not> has_key d ''or'' \<and> \<not> has_key d ''and'' then
        (case string_to_datetime E model (dict_get d ''name'') (dict_get d ''val'') of
           Inl e \<Rightarrow> Inl e
         | Inr argument \<Rightarrow>
             Inr (Filter (dict_get d ''name'') operator argument (dict_get d ''field'')))
      else from_dictionary E model (PDict d))"
  by (simp add: from_dictionary.simps [of E model "PDict ((''op'', operator) # d)"]
        from_dictionary.simps [of E model "PDict d"] has_key_Cons dict_get_Cons
      cong: sum.case_cong if_cong)

lemma compile_operator:
  assumes "lookup_operator operator = lookup_operator operator'"
  shows "compile E model (PDict ((''op'', operator) # d)) =
         compile E model (PDict ((''op'', operator') # d))"
proof (cases "\<not> has_key d ''or'' \<and> \<not> has_key d ''and''")
  case True
  show ?thesis
  proof (cases "string_to_datetime E model (dict_get d ''name'') (dict_get d ''val'')")
    case (Inl e)
    with True show ?thesis
      by (simp add: compile_def from_dictionary_operator del: create_filter.simps)
  next
    case (Inr a)
    with True show ?thesis
      using create_filter_operator [OF assms]
      by (simp add: compile_def from_dictionary_operator del: create_filter.simps)
  qed
next
  case False
  show ?thesis
    unfolding compile_def from_dictionary_operator by (simp only: False if_False)
qed

text \<open>
  C3. Two operator names that are keys of the same lambda of \<open>OPERATORS\<close> compile alike:
  for every field name, argument and other field the leaf filters with the two names
  give the same result (the same clause, or the same exception), and so do two filter
  specifications that differ in the value of \<open>'op'\<close> only; two equal clauses match the
  same rows. The groups of names are those of the table: four names for equality, five
  for inequality, two for each strict comparison and four for each weak one.
\<close>

theorem synonyms_compile_alike:
  "(s \<in> set (synonyms_of f) \<and> t \<in> set (synonyms_of f) \<longrightarrow>
      create_filter E model (Filter fieldname (PStr s) argument otherfield) =
      create_filter E model (Filter fieldname (PStr t) argument otherfield) \<and>
      compile E model (PDict ((''op'', PStr s) # d)) =
      compile E model (PDict ((''op'', PStr t) # d)) \<and>
      (\<forall>p p'. compile E model (PDict ((''op'', PStr s) # d)) = Inr p \<and>
              compile E model (PDict ((''op'', PStr t) # d)) = Inr p' \<longrightarrow>
              matched S p = matched S p'))
   \<and> synonyms_of op_eq = [''=='', ''eq'', ''equals'', ''equal_to'']
   \<and> synonyms_of op_ne = [''!='', ''ne'', ''neq'', ''not_equal_to'', ''does_not_equal'']
   \<and> synonyms_of op_gt = [''>'', ''gt'']
   \<and> synonyms_of op_lt = [''<'', ''lt'']
   \<and> synonyms_of op_ge = [''>='', ''ge'', ''gte'', ''geq'']
   \<and> synonyms_of op_le = [''<='', ''le'', ''lte'', ''leq'']"
proof -
  have "synonyms_of op_eq = [''=='', ''eq'', ''equals'', ''equal_to'']"
    and "synonyms_of op_ne = [''!='', ''ne'', ''neq'', ''not_equal_to'', ''does_not_equal'']"
    and "synonyms_of op_gt = [''>'', ''gt'']"
    and "synonyms_of op_lt = [''<'', ''lt'']"
    and "synonyms_of op_ge = [''>='', ''ge'', ''gte'', ''geq'']"
    and "synonyms_of op_le = [''<='', ''le'', ''lte'', ''leq'']"
    by (simp_all add: synonyms_of_def OPERATORS_def)
  moreover
  { assume "s \<in> set (synonyms_of f)" and "t \<in> set (synonyms_of f)"
    then have same: "lookup_operator (PStr s) = lookup_operator (PStr t)"
      by (simp add: synonym_lookup)
    have "create_filter E model (Filter fieldname (PStr s) argument otherfield) =
          create_filter E model (Filter fieldname (PStr t) argument otherfield)"
      by (rule create_filter_operator [OF same])
    moreover have "compile E model (PDict ((''op'', PStr s) # d)) =
          compile E model (PDict ((''op'', PStr t) # d))"
      by (rule compile_operator [OF same])
    ultimately have "create_filter E model (Filter fieldname (PStr s) argument otherfield) =
          create_filter E model (Filter fieldname (PStr t) argument otherfield) \<and>
        compile E model (PDict ((''op'', PStr s) # d)) =
          compile E model (PDict ((''op'', PStr t) # d)) \<and>
        (\<forall>p p'. compile E model (PDict ((''op'', PStr s) # d)) = Inr p \<and>
              compile E model (PDict ((''op'', PStr t) # d)) = Inr p' \<longrightarrow>
              matched S p = matched S p')"
      by (auto simp del: create_filter.simps) }
  ultimately show ?thesis by blast
qed

theorem synonyms_compile_alike_witness:
  "''=='' \<in> set (synonyms_of op_eq) \<and> ''equal_to'' \<in> set (synonyms_of op_eq)
   \<and> compile test_env ''Person''
        (PDict [(''op'', PStr ''==''), (''name'', PStr ''id''), (''val'', PInt 1)]) =
      Inr (Compare Eq (column ''Person'' ''id'') (Lit (PInt 1)))
   \<and> compile test_env ''Person''
        (PDict [(''op'', PStr ''equal_to''), (''name'', PStr ''id''), (''val'', PInt 1)]) =
      Inr (Compare Eq (column ''Person'' ''id'') (Lit (PInt 1)))"
proof -
  have a: "''=='' \<in> set (synonyms_of op_eq) \<and> ''equal_to'' \<in> set (synonyms_of op_eq)"
    by (simp add: synonyms_of_def OPERATORS_def)
  have b: "compile test_env ''Person''
        (PDict [(''op'', PStr ''==''), (''name'', PStr ''id''), (''val'', PInt 1)]) =
      Inr (Compare Eq (column ''Person'' ''id'') (Lit (PInt 1)))"
    by (simp add: evaluation)
  show ?thesis
    using a b
      synonyms_compile_alike [where s = "''==''" and t = "''equal_to''" and f = op_eq
        and E = test_env and model = "''Person''"
        and d = "[(''name'', PStr ''id''), (''val'', PInt 1)]"
        and fieldname = "PStr ''id''" and argument = "PInt 1" and otherfield = PNone
        and S = test_semantics]
    by simp
qed

section \<open>Ordering\<close>

lemma getattr_names:
  "traverse (\<lambda>n. case getattr E model (PStr n) of
                    Inl e \<Rightarrow> Inl e
                  | Inr f \<Rightarrow> direction ''asc'' f) ns = Inr os \<Longrightarrow>
   \<exists>flds. os = map Asc flds \<and> map key flds = ns \<and> list_all (\<lambda>f. owner f = model) flds"
proof (induction ns arbitrary: os)
  case Nil
  then show ?case by simp
next
  case (Cons n ns)
  from Cons.prems obtain a os' where a: "attrs E model n = Some a"
    and os: "os = Asc (Field model n a) # os'"
    and rest: "traverse (\<lambda>n. case getattr E model (PStr n) of
                    Inl e \<Rightarrow> Inl e
                  | Inr f \<Rightarrow> direction ''asc'' f) ns = Inr os'"
    by (auto split: sum.splits option.splits if_splits)
  from Cons.IH [OF rest] obtain flds where "os' = map Asc flds" and "map key flds = ns"
    and "list_all (\<lambda>f. owner f = model) flds"
    by blast
  with os have "os = map Asc (Field model n a # flds) \<and>
      map key (Field model n a # flds) = n # ns \<and>
      list_all (\<lambda>f. owner f = model) (Field model n a # flds)"
    by simp
  then show ?case by (rule exI)
qed

lemma create_query_unordered:
  assumes "create_query E model filters srt grp True = Inr q"
  shows "order_clauses q = []"
proof -
  from assms obtain q0 where
    "(case grp of Some (g # gs) \<Rightarrow> group_loop E model q0 (g # gs) | _ \<Rightarrow> Inr q0) = Inr q"
    and "order_clauses q0 = []"
    by (auto simp: create_query_def session_query_def split: sum.splits)
  then show ?thesis
    by (auto simp del: group_loop.simps split: option.splits list.splits
          dest: group_loop_order)
qed

lemma create_query_default_order:
  assumes "create_query E model filters srt grp False = Inr q"
    and "srt = None \<or> srt = Some []"
  shows "\<exists>flds. order_clauses q = map Asc flds \<and>
     map key flds = primary_key_names E model \<and> list_all (\<lambda>f. owner f = model) flds"
proof -
  from assms obtain q0 os where
    g: "(case grp of Some (g # gs) \<Rightarrow> group_loop E model q0 (g # gs) | _ \<Rightarrow> Inr q0) = Inr q"
    and o: "order_clauses q0 = os"
    and t: "traverse (\<lambda>n. case getattr E model (PStr n) of
                    Inl e \<Rightarrow> Inl e
                  | Inr f \<Rightarrow> direction ''asc'' f) (primary_key_names E model) = Inr os"
    by (auto simp: create_query_def session_query_def simp del: direction.simps
          split: sum.splits)
  have "order_clauses q = order_clauses q0"
    using g by (auto simp del: group_loop.simps split: option.splits list.splits
                  dest: group_loop_order)
  with o getattr_names [OF t] show ?thesis by auto
qed

lemma compile_all:
  assumes "list_all2 (\<lambda>x c. compile E model x = Inr c) fs cs"
  shows "\<exists>parsed. traverse (from_dictionary E model) fs = Inr parsed \<and>
                  traverse (create_filter E model) parsed = Inr cs"
proof -
  from assms have "(case traverse (from_dictionary E model) fs of
      Inl e \<Rightarrow> Inl e | Inr parsed \<Rightarrow> traverse (create_filter E model) parsed) = Inr cs"
    unfolding traverse_twice compile_children .
  then show ?thesis
    by (cases "traverse (from_dictionary E model) fs") simp_all
qed

lemma primary_key_order:
  assumes "list_all2 (\<lambda>n f. getattr E model (PStr n) = Inr f \<and> queryable (cls f)) ns flds"
  shows "traverse (\<lambda>n. case getattr E model (PStr n) of
                         Inl e \<Rightarrow> Inl e
                       | Inr f \<Rightarrow> direction ''asc'' f) ns = Inr (map Asc flds)"
  using assms by (induction ns flds rule: list_all2_induct) simp_all

lemma create_query_ordered:
  assumes fs: "list_all2 (\<lambda>x c. compile E model x = Inr c) fs cs"
    and srt: "srt = None \<or> srt = Some []" and grp: "grp = None \<or> grp = Some []"
    and pks: "list_all2 (\<lambda>n f. getattr E model (PStr n) = Inr f \<and> queryable (cls f))
                (primary_key_names E model) flds"
  shows "create_query E model (PList fs) srt grp False =
     Inr \<lparr>entity = model, criteria = cs, joins = [], order_clauses = map Asc flds,
          group_clauses = []\<rparr>"
proof -
  from compile_all [OF fs] obtain parsed where
    "traverse (from_dictionary E model) fs = Inr parsed"
    and "traverse (create_filter E model) parsed = Inr cs"
    by blast
  with srt grp primary_key_order [OF pks] show ?thesis
    by (auto simp: create_query_def session_query_def simp del: direction.simps)
qed

lemma create_query_suppressed:
  assumes fs: "list_all2 (\<lambda>x c. compile E model x = Inr c) fs cs"
    and grp: "grp = None \<or> grp = Some []"
  shows "create_query E model (PList fs) srt grp True =
     Inr \<lparr>entity = model, criteria = cs, joins = [], order_clauses = [],
          group_clauses = []\<rparr>"
proof -
  from compile_all [OF fs] obtain parsed where
    "traverse (from_dictionary E model) fs = Inr parsed"
    and "traverse (create_filter E model) parsed = Inr cs"
    by blast
  with grp show ?thesis
    by (auto simp: create_query_def session_query_def)
qed

lemma create_query_ignore_order:
  "create_query test_env ''Person'' (PList []) (Some [(''-'', ''name'')]) None True =
   Inr \<lparr>entity = ''Person'', criteria = [], joins = [], order_clauses = [],
        group_clauses = []\<rparr>"
  by (simp add: create_query_def session_query_def evaluation)

lemma create_query_user_keyword:
  "create_query test_env ''UserKeyword'' (PList []) None None False =
   Inr \<lparr>entity = ''UserKeyword'', criteria = [], joins = [],
        order_clauses = [Asc (column ''UserKeyword'' ''keyword_id''),
                         Asc (column ''UserKeyword'' ''user_id'')],
        group_clauses = []\<rparr>"
  by (simp add: create_query_def session_query_def evaluation)

text \<open>
  \<open>create_query\<close> orders by the names that \<open>primary_key_names\<close> returns, as they
  come. The class \<open>UserKeyword\<close> of \<open>tests/test_updating.py\<close> declares its primary
  keys in the order \<open>user_id\<close>, \<open>keyword_id\<close>; the helper lists the members of the
  class by name, \<open>keyword_id\<close> before \<open>user_id\<close>, and the query on \<open>UserKeyword\<close> is
  ordered by \<open>keyword_id\<close> first: not in the order of declaration.
\<close>

theorem default_ordering_counterexample:
  "create_query test_env ''UserKeyword'' (PList []) None None False =
   Inr \<lparr>entity = ''UserKeyword'', criteria = [], joins = [],
        order_clauses = [Asc (column ''UserKeyword'' ''keyword_id''),
                         Asc (column ''UserKeyword'' ''user_id'')],
        group_clauses = []\<rparr>
   \<and> declared_primary_keys ''UserKeyword'' = [''user_id'', ''keyword_id'']
   \<and> primary_key_names test_env ''UserKeyword'' = [''keyword_id'', ''user_id'']"
  using create_query_user_keyword
  by (simp add: declared_primary_keys_def test_env_def test_primary_keys_def)

text \<open>
  C4, amended. When \<open>create_query\<close> returns a query, ordering is not suppressed and
  no sort is requested (\<open>None\<close> or the empty list), the ordering clauses of the query are
  the ascending orders on the attributes of the model named by \<open>primary_key_names\<close>, in
  the order in which that helper lists them; when ordering is suppressed the query has no
  ordering clause, whatever the sort parameter is. And \<open>create_query\<close> does return
  such a query on a list of filters that all compile, without grouping: with the
  default ordering when every name that \<open>primary_key_names\<close> lists is a queryable
  attribute of the model, and without ordering when ordering is suppressed.
\<close>

theorem default_ordering:
  "(create_query E model filters srt grp ign = Inr q \<longrightarrow>
     (\<not> ign \<and> (srt = None \<or> srt = Some []) \<longrightarrow>
        (\<exists>flds. order_clauses q = map Asc flds \<and>
           map key flds = primary_key_names E model \<and>
           list_all (\<lambda>f. owner f = model) flds)) \<and>
     (ign \<longrightarrow> order_clauses q = []))
   \<and> (list_all2 (\<lambda>x c. compile E model x = Inr c) fs cs \<and>
      (srt = None \<or> srt = Some []) \<and> (grp = None \<or> grp = Some []) \<and>
      list_all2 (\<lambda>n f. getattr E model (PStr n) = Inr f \<and> queryable (cls f))
        (primary_key_names E model) pks \<longrightarrow>
        create_query E model (PList fs) srt grp False =
        Inr \<lparr>entity = model, criteria = cs, joins = [], order_clauses = map Asc pks,
             group_clauses = []\<rparr>)
   \<and> (list_all2 (\<lambda>x c. compile E model x = Inr c) fs cs \<and>
      (grp = None \<or> grp = Some []) \<longrightarrow>
        create_query E model (PList fs) srt grp True =
        Inr \<lparr>entity = model, criteria = cs, joins = [], order_clauses = [],
             group_clauses = []\<rparr>)"
proof (intro conjI impI)
  assume q: "create_query E model filters srt grp ign = Inr q"
  { assume "\<not> ign \<and> (srt = None \<or> srt = Some [])"
    with q show "\<exists>flds. order_clauses q = map Asc flds \<and>
           map key flds = primary_key_names E model \<and>
           list_all (\<lambda>f. owner f = model) flds"
      using create_query_default_order [of E model filters srt grp q] by simp }
  { assume ign
    with q show "order_clauses q = []"
      using create_query_unordered [of E model filters srt grp q] by simp }
next
  assume "list_all2 (\<lambda>x c. compile E model x = Inr c) fs cs \<and>
      (srt = None \<or> srt = Some []) \<and> (grp = None \<or> grp = Some []) \<and>
      list_all2 (\<lambda>n f. getattr E model (PStr n) = Inr f \<and> queryable (cls f))
        (primary_key_names E model) pks"
  then show "create_query E model (PList fs) srt grp False =
        Inr \<lparr>entity = model, criteria = cs, joins = [], order_clauses = map Asc pks,
             group_clauses = []\<rparr>"
    using create_query_ordered [of E model fs cs srt grp pks] by simp
next
  assume "list_all2 (\<lambda>x c. compile E model x = Inr c) fs cs \<and> (grp = None \<or> grp = Some [])"
  then show "create_query E model (PList fs) srt grp True =
        Inr \<lparr>entity = model, criteria = cs, joins = [], order_clauses = [],
             group_clauses = []\<rparr>"
    using create_query_suppressed [of E model fs cs grp srt] by simp
qed

lemma article_tag_keys:
  "getattr test_env ''ArticleTag'' (PStr ''article_id'') =
     Inr (column ''ArticleTag'' ''article_id'')"
  "getattr test_env ''ArticleTag'' (PStr ''tag_id'') = Inr (column ''ArticleTag'' ''tag_id'')"
  "primary_key_names test_env ''ArticleTag'' = [''article_id'', ''tag_id'']"
  by (simp_all add: test_env_def test_attrs_def test_primary_keys_def column_def)

theorem default_ordering_witness:
  "create_query test_env ''ArticleTag'' (PList []) None None False =
   Inr \<lparr>entity = ''ArticleTag'', criteria = [], joins = [],
        order_clauses = [Asc (column ''ArticleTag'' ''article_id''),
                         Asc (column ''ArticleTag'' ''tag_id'')],
        group_clauses = []\<rparr>
   \<and> primary_key_names test_env ''ArticleTag'' = [''article_id'', ''tag_id'']
   \<and> (\<exists>flds. [Asc (column ''ArticleTag'' ''article_id''),
               Asc (column ''ArticleTag'' ''tag_id'')] = map Asc flds \<and>
           map key flds = primary_key_names test_env ''ArticleTag'' \<and>
           list_all (\<lambda>f. owner f = ''ArticleTag'') flds)
   \<and> create_query test_env ''Person'' (PList []) (Some [(''-'', ''name'')]) None True =
   Inr \<lparr>entity = ''Person'', criteria = [], joins = [], order_clauses = [],
        group_clauses = []\<rparr>
   \<and> create_query test_env ''Person''
       (PList [leaf ''age'' ''ge'' (PInt 10)]) (Some [(''-'', ''name'')]) None True =
   Inr \<lparr>entity = ''Person'',
        criteria = [Compare Ge (column ''Person'' ''age'') (Lit (PInt 10))], joins = [],
        order_clauses = [], group_clauses = []\<rparr>"
  using
    default_ordering [where E = test_env and model = "''ArticleTag''" and filters = "PList []"
      and srt = None and grp = None and ign = False
      and fs = "[]" and cs = "[]"
      and pks = "[column ''ArticleTag'' ''article_id'', column ''ArticleTag'' ''tag_id'']"
      and q = "\<lparr>entity = ''ArticleTag'', criteria = [], joins = [],
        order_clauses = [Asc (column ''ArticleTag'' ''article_id''),
                         Asc (column ''ArticleTag'' ''tag_id'')],
        group_clauses = []\<rparr>"]
    default_ordering [where E = test_env and model = "''Person''" and filters = "PList []"
      and srt = "Some [(''-'', ''name'')]" and grp = None and ign = True
      and fs = "[leaf ''age'' ''ge'' (PInt 10)]"
      and cs = "[Compare Ge (column ''Person'' ''age'') (Lit (PInt 10))]"
      and pks = "[]"
      and q = "\<lparr>entity = ''Person'', criteria = [], joins = [], order_clauses = [],
        group_clauses = []\<rparr>"]
    create_query_ignore_order compile_leaf_ge article_tag_keys
  by (simp add: column_def)

section \<open>Searching for one result\<close>

lemma create_query_id_equals:
  "create_query test_env ''Person'' (PList [leaf ''id'' ''equals'' (PInt 1)]) None None False =
   Inr \<lparr>entity = ''Person'',
        criteria = [Compare Eq (column ''Person'' ''id'') (Lit (PInt 1))],
        joins = [], order_clauses = [Asc (column ''Person'' ''id'')], group_clauses = []\<rparr>"
  by (simp add: create_query_def session_query_def evaluation)

lemma create_query_no_filter:
  "create_query test_env ''Person'' (PList []) None None False =
   Inr \<lparr>entity = ''Person'', criteria = [], joins = [],
        order_clauses = [Asc (column ''Person'' ''id'')], group_clauses = []\<rparr>"
  by (simp add: create_query_def session_query_def evaluation)

lemma test_run_id_equals:
  "test_run [person 1, person 2]
     \<lparr>entity = ''Person'',
      criteria = [Compare Eq (column ''Person'' ''id'') (Lit (PInt 1))],
      joins = [], order_clauses = [Asc (column ''Person'' ''id'')], group_clauses = []\<rparr> =
   [person 1]"
  by (simp add: test_run_def test_semantics_def test_compare_def person_def column_def)

text \<open>
  C5. When \<open>create_query\<close> returns the query \<open>q\<close>: in single-result mode \<open>search\<close>
  raises \<open>NoResultFound\<close> if running \<open>q\<close> gives no row, returns the row if it gives
  exactly one, and raises \<open>MultipleResultsFound\<close> if it gives more than one; without
  single-result mode \<open>search\<close> returns \<open>q\<close> itself, whose rows are the result sequence.
\<close>

theorem search_single_or_all:
  "create_query E model filters srt grp ign = Inr q \<longrightarrow>
     (run q = [] \<longrightarrow> search run E model filters srt grp True ign = Inl NoResultFound) \<and>
     (\<forall>r. run q = [r] \<longrightarrow> search run E model filters srt grp True ign = Inr (Instance r)) \<and>
     (1 < length (run q) \<longrightarrow>
        search run E model filters srt grp True ign = Inl MultipleResultsFound) \<and>
     search run E model filters srt grp False ign = Inr (Results q)"
  by (auto simp: search_def one_def split: list.splits)

theorem search_single_or_all_witness:
  "search (test_run [person 1, person 2]) test_env ''Person''
       (PList [leaf ''id'' ''equals'' (PInt 1)]) None None True False =
     Inr (Instance (person 1))
   \<and> search (test_run [person 1, person 2]) test_env ''Person'' (PList []) None None True False =
     Inl MultipleResultsFound
   \<and> search (test_run []) test_env ''Person'' (PList []) None None True False =
     Inl NoResultFound
   \<and> search (test_run [person 1, person 2]) test_env ''Person'' (PList []) None None False False =
     Inr (Results \<lparr>entity = ''Person'', criteria = [], joins = [],
        order_clauses = [Asc (column ''Person'' ''id'')], group_clauses = []\<rparr>)"
  using
    search_single_or_all [where run = "test_run [person 1, person 2]" and E = test_env
      and model = "''Person''" and filters = "PList [leaf ''id'' ''equals'' (PInt 1)]"
      and srt = None and grp = None and ign = False
      and q = "\<lparr>entity = ''Person'',
        criteria = [Compare Eq (column ''Person'' ''id'') (Lit (PInt 1))],
        joins = [], order_clauses = [Asc (column ''Person'' ''id'')], group_clauses = []\<rparr>"]
    search_single_or_all [where run = "test_run [person 1, person 2]" and E = test_env
      and model = "''Person''" and filters = "PList []"
      and srt = None and grp = None and ign = False
      and q = "\<lparr>entity = ''Person'', criteria = [], joins = [],
        order_clauses = [Asc (column ''Person'' ''id'')], group_clauses = []\<rparr>"]
    search_single_or_all [where run = "test_run []" and E = test_env
      and model = "''Person''" and filters = "PList []"
      and srt = None and grp = None and ign = False
      and q = "\<lparr>entity = ''Person'', criteria = [], joins = [],
        order_clauses = [Asc (column ''Person'' ''id'')], group_clauses = []\<rparr>"]
    create_query_id_equals create_query_no_filter test_run_id_equals
  by (simp add: test_run_def)

section \<open>Leaf filters\<close>

text \<open>
  A dictionary without \<open>'or'\<close> and \<open>'and'\<close> is a leaf: once \<open>string_to_datetime\<close> has
  let its value through, it is compiled as the \<open>Filter\<close> of its name, operator,
  coerced value and other field. \<open>_create_filter\<close> cuts the name \<open>rel__fn\<close> into the
  relation \<open>rel\<close> and the field name \<open>fn\<close>, replaces the argument by the attribute of
  the other field if one is named, and \<open>_create_operation\<close> then looks up the relation
  or, if the relation is empty or absent, the field name.
\<close>

lemma dict_get_None: "map_of d k = None \<Longrightarrow> dict_get d k = PNone"
  by (simp add: dict_get_def)

lemma dict_get_Some: "map_of d k = Some v \<Longrightarrow> dict_get d k = v"
  by (simp add: dict_get_def)

lemma from_dictionary_leaf:
  "map_of d ''or'' = None \<Longrightarrow> map_of d ''and'' = None \<Longrightarrow>
   from_dictionary E model (PDict d) =
     (case string_to_datetime E model (dict_get d ''name'') (dict_get d ''val'') of
        Inl e \<Rightarrow> Inl e
      | Inr argument \<Rightarrow>
          Inr (Filter (dict_get d ''name'') (dict_get d ''op'') argument
                 (dict_get d ''field'')))"
  by (subst from_dictionary.simps) (simp add: has_key_def)

lemma compile_leaf:
  assumes "map_of d ''or'' = None" and "map_of d ''and'' = None"
    and "string_to_datetime E model (dict_get d ''name'') (dict_get d ''val'') = Inr a"
  shows "compile E model (PDict d) =
     create_filter E model
       (Filter (dict_get d ''name'') (dict_get d ''op'') a (dict_get d ''field''))"
  unfolding compile_def from_dictionary_leaf [OF assms(1,2)]
  using assms(3) by (simp del: create_filter.simps)

lemma create_filter_leaf:
  assumes "if contains ''__'' n then py_split ''__'' n = [rel, fn] else rel = [] \<and> fn = n"
    and "if truthy otherfield then getattr E model otherfield = Inr f \<and> rhs = Col f
         else rhs = Lit argument"
  shows "create_filter E model (Filter (PStr n) operator argument otherfield) =
     create_operation E model (PStr fn) operator rhs
       (if contains ''__'' n then PStr rel else PNone)"
  using assms by (cases "contains ''__'' n"; cases "truthy otherfield") simp_all

lemma getattr_leaf:
  assumes "if contains ''__'' n then py_split ''__'' n = [rel, fn] else rel = [] \<and> fn = n"
    and "attrs E model (if rel = [] then fn else rel) = Some a"
  shows "getattr E model
       (if truthy (if contains ''__'' n then PStr rel else PNone)
        then (if contains ''__'' n then PStr rel else PNone) else PStr fn) =
     Inr (Field model (if rel = [] then fn else rel) a)"
  using assms by (cases "contains ''__'' n"; cases "rel = []") simp_all

lemma other_field:
  assumes "truthy otherfield \<longrightarrow> (\<exists>f. getattr E model otherfield = Inr f)"
  shows "\<exists>f rhs. if truthy otherfield then getattr E model otherfield = Inr f \<and> rhs = Col f
                  else rhs = Lit argument"
  using assms by (cases "truthy otherfield") auto

section \<open>Null arguments and arity\<close>

lemma create_operation_unary:
  assumes "lookup_operator operator = Inr opf" and "numargs opf = 1"
    and "getattr E model (if truthy relation then relation else fieldname) = Inr fld"
  shows "create_operation E model fieldname operator argument relation = call1 opf fld"
  using assms by (simp add: create_operation.simps)

lemma create_operation_null:
  assumes "lookup_operator operator = Inr opf" and "numargs opf \<noteq> 1"
    and "getattr E model (if truthy relation then relation else fieldname) = Inr fld"
  shows "create_operation E model fieldname operator (Lit PNone) relation = Inl ComparisonToNull"
  using assms by (simp add: create_operation.simps)

lemma create_operation_null_error:
  assumes "lookup_operator operator = Inr opf" and "numargs opf \<noteq> 1"
  shows "\<exists>e. create_operation E model fieldname operator (Lit PNone) relation = Inl e \<and>
             e \<in> {TypeError, AttributeError, ComparisonToNull}"
proof (cases "getattr E model (if truthy relation then relation else fieldname)")
  case (Inl e)
  then have "e = TypeError \<or> e = AttributeError"
    by (cases "if truthy relation then relation else fieldname")
       (auto split: option.splits)
  with Inl assms show ?thesis by (auto simp: create_operation.simps)
next
  case (Inr fld)
  with assms show ?thesis by (simp add: create_operation.simps)
qed

lemma lookup_is_null:
  "lookup_operator (PStr ''is_null'') = Inr op_is_null"
  "lookup_operator (PStr ''is_not_null'') = Inr op_is_not_null"
  by (simp_all add: OPERATORS_def)

lemma create_filter_null_error:
  assumes "lookup_operator operator = Inr opf" and "numargs opf \<noteq> 1"
    and "\<not> truthy otherfield"
  shows "\<exists>e. create_filter E model (Filter fieldname operator PNone otherfield) = Inl e \<and>
             e \<noteq> KeyError"
proof (cases "py_in ''__'' fieldname")
  case (Inl e)
  then have "e = TypeError" by (cases fieldname) auto
  with Inl show ?thesis by simp
next
  case delim: (Inr b)
  show ?thesis
  proof (cases b)
    case False
    with delim assms(3) have "create_filter E model (Filter fieldname operator PNone otherfield) =
        create_operation E model fieldname operator (Lit PNone) PNone"
      by simp
    with create_operation_null_error [OF assms(1,2), of E model fieldname PNone]
    show ?thesis by auto
  next
    case True
    show ?thesis
    proof (cases "split_pair ''__'' fieldname")
      case (Inl e)
      then have "e = ValueError \<or> e = AttributeError"
        by (cases fieldname) (auto split: list.splits)
      with Inl delim True show ?thesis by auto
    next
      case (Inr ab)
      obtain a b' where ab: "ab = (a, b')" by (cases ab)
      with Inr delim True assms(3)
      have "create_filter E model (Filter fieldname operator PNone otherfield) =
        create_operation E model (PStr b') operator (Lit PNone) (PStr a)"
        by simp
      with create_operation_null_error [OF assms(1,2), of E model "PStr b'" "PStr a"]
      show ?thesis by auto
    qed
  qed
qed

lemma create_filter_unary:
  assumes name: "if contains ''__'' n then py_split ''__'' n = [rel, fn] else rel = [] \<and> fn = n"
    and attr: "attrs E model (if rel = [] then fn else rel) = Some a"
    and other: "truthy otherfield \<longrightarrow> (\<exists>f. getattr E model otherfield = Inr f)"
    and op: "lookup_operator operator = Inr opf" and unary: "numargs opf = 1"
  shows "create_filter E model (Filter (PStr n) operator argument otherfield) =
     call1 opf (Field model (if rel = [] then fn else rel) a)"
proof -
  from other_field [OF other] obtain f rhs where
    rhs: "if truthy otherfield then getattr E model otherfield = Inr f \<and> rhs = Col f
          else rhs = Lit argument"
    by blast
  show ?thesis
    unfolding create_filter_leaf [OF name rhs]
    by (rule create_operation_unary [OF op unary getattr_leaf [OF name attr]])
qed

lemma create_filter_null:
  assumes name: "if contains ''__'' n then py_split ''__'' n = [rel, fn] else rel = [] \<and> fn = n"
    and attr: "attrs E model (if rel = [] then fn else rel) = Some a"
    and other: "\<not> truthy otherfield"
    and op: "lookup_operator operator = Inr opf" and binary: "numargs opf \<noteq> 1"
  shows "create_filter E model (Filter (PStr n) operator PNone otherfield) =
     Inl ComparisonToNull"
proof -
  have "create_filter E model (Filter (PStr n) operator PNone otherfield) =
     create_operation E model (PStr fn) operator (Lit PNone)
       (if contains ''__'' n then PStr rel else PNone)"
    by (rule create_filter_leaf [OF name]) (simp add: other)
  then show ?thesis
    using create_operation_null [OF op binary getattr_leaf [OF name attr]]
    by (simp del: create_filter.simps)
qed


text \<open>
  A leaf with a binary operator and no value need not raise \<open>ComparisonToNull\<close>: the
  filter of \<open>test_comparing_fields\<close> names another field, which takes the place of
  the argument, and compiles to \<open>age == id\<close>. And \<open>_create_operation\<close> looks the field
  up before it looks at the argument: on a model without the attribute \<open>bogus\<close> both
  the comparison with null and the null test raise \<open>AttributeError\<close>.
\<close>

theorem comparison_to_null_counterexample:
  "compile test_env ''Person''
     (PDict [(''name'', PStr ''age''), (''op'', PStr ''eq''), (''field'', PStr ''id'')]) =
     Inr (Compare Eq (column ''Person'' ''age'') (Col (column ''Person'' ''id'')))
   \<and> create_filter test_env ''Person'' (Filter (PStr ''bogus'') (PStr ''eq'') PNone PNone) =
     Inl AttributeError
   \<and> compile test_env ''Person'' (leaf ''bogus'' ''=='' PNone) = Inl AttributeError
   \<and> create_filter test_env ''Person'' (Filter (PStr ''bogus'') (PStr ''is_null'') PNone PNone) =
     Inl AttributeError
   \<and> compile test_env ''Person'' (PDict [(''name'', PStr ''bogus''), (''op'', PStr ''is_null'')]) =
     Inl AttributeError"
  by (simp add: evaluation)

text \<open>
  C2, amended. Take a leaf filter that names no other field, whose name is a string
  \<open>n\<close>, either without \<open>'__'\<close> or cut by \<open>'__'\<close> into exactly two parts, and whose
  field (the part before \<open>'__'\<close> if there is one and it is not empty, else the part
  after it, or \<open>n\<close> itself) is an attribute of the model. With a binary operator and
  the argument \<open>None\<close>, \<open>_create_filter\<close> raises \<open>ComparisonToNull\<close>; with \<open>is_null\<close>
  (\<open>is_not_null\<close>) and the argument \<open>None\<close> it succeeds and gives the null test
  \<open>f == None\<close> (\<open>f != None\<close>) on that attribute. The same holds for parsing and
  compiling the dictionary of such a leaf whose value is absent or \<open>None\<close>, when
  \<open>string_to_datetime\<close> gives \<open>None\<close> for \<open>None\<close>.
\<close>

theorem comparison_to_null:
  "(if contains ''__'' n then py_split ''__'' n = [rel, fn] else rel = [] \<and> fn = n) \<and>
   attrs E model (if rel = [] then fn else rel) = Some a \<and>
   \<not> truthy otherfield \<longrightarrow>
     (lookup_operator operator = Inr opf \<and> numargs opf = 2 \<longrightarrow>
        create_filter E model (Filter (PStr n) operator PNone otherfield) =
        Inl ComparisonToNull) \<and>
     create_filter E model (Filter (PStr n) (PStr ''is_null'') PNone otherfield) =
       Inr (Compare Eq (Field model (if rel = [] then fn else rel) a) (Lit PNone)) \<and>
     create_filter E model (Filter (PStr n) (PStr ''is_not_null'') PNone otherfield) =
       Inr (Compare Ne (Field model (if rel = [] then fn else rel) a) (Lit PNone)) \<and>
     (map_of d ''or'' = None \<and> map_of d ''and'' = None \<and>
      map_of d ''name'' = Some (PStr n) \<and> dict_get d ''field'' = otherfield \<and>
      dict_get d ''val'' = PNone \<and> string_to_datetime E model (PStr n) PNone = Inr PNone \<longrightarrow>
        (map_of d ''op'' = Some operator \<and> lookup_operator operator = Inr opf \<and>
         numargs opf = 2 \<longrightarrow>
           compile E model (PDict d) = Inl ComparisonToNull) \<and>
        (map_of d ''op'' = Some (PStr ''is_null'') \<longrightarrow>
           compile E model (PDict d) =
           Inr (Compare Eq (Field model (if rel = [] then fn else rel) a) (Lit PNone))) \<and>
        (map_of d ''op'' = Some (PStr ''is_not_null'') \<longrightarrow>
           compile E model (PDict d) =
           Inr (Compare Ne (Field model (if rel = [] then fn else rel) a) (Lit PNone))))"
proof (intro impI)
  assume h: "(if contains ''__'' n then py_split ''__'' n = [rel, fn] else rel = [] \<and> fn = n) \<and>
   attrs E model (if rel = [] then fn else rel) = Some a \<and> \<not> truthy otherfield"
  then have name: "if contains ''__'' n then py_split ''__'' n = [rel, fn]
      else rel = [] \<and> fn = n"
    and attr: "attrs E model (if rel = [] then fn else rel) = Some a"
    and other: "\<not> truthy otherfield"
    and other': "truthy otherfield \<longrightarrow> (\<exists>f. getattr E model otherfield = Inr f)"
    by simp_all
  let ?f = "Field model (if rel = [] then fn else rel) a"
  have binary: "create_filter E model (Filter (PStr n) oper PNone otherfield) =
        Inl ComparisonToNull"
    if "lookup_operator oper = Inr opf \<and> numargs opf = 2" for oper
    using create_filter_null [OF name attr other, of oper opf] that by simp
  have null: "create_filter E model (Filter (PStr n) (PStr ''is_null'') PNone otherfield) =
       Inr (Compare Eq ?f (Lit PNone))"
    using create_filter_unary [OF name attr other' lookup_is_null(1), of PNone] by simp
  have not_null:
    "create_filter E model (Filter (PStr n) (PStr ''is_not_null'') PNone otherfield) =
       Inr (Compare Ne ?f (Lit PNone))"
    using create_filter_unary [OF name attr other' lookup_is_null(2), of PNone] by simp
  have leaf: "compile E model (PDict d) =
      create_filter E model (Filter (PStr n) oper PNone otherfield)"
    if "map_of d ''or'' = None \<and> map_of d ''and'' = None \<and>
      map_of d ''name'' = Some (PStr n) \<and> dict_get d ''field'' = otherfield \<and>
      dict_get d ''val'' = PNone \<and> string_to_datetime E model (PStr n) PNone = Inr PNone"
      and "map_of d ''op'' = Some oper" for oper
    using that compile_leaf [of d E model PNone]
    by (simp add: dict_get_Some del: create_filter.simps)
  show "(lookup_operator operator = Inr opf \<and> numargs opf = 2 \<longrightarrow>
        create_filter E model (Filter (PStr n) operator PNone otherfield) =
        Inl ComparisonToNull) \<and>
     create_filter E model (Filter (PStr n) (PStr ''is_null'') PNone otherfield) =
       Inr (Compare Eq ?f (Lit PNone)) \<and>
     create_filter E model (Filter (PStr n) (PStr ''is_not_null'') PNone otherfield) =
       Inr (Compare Ne ?f (Lit PNone)) \<and>
     (map_of d ''or'' = None \<and> map_of d ''and'' = None \<and>
      map_of d ''name'' = Some (PStr n) \<and> dict_get d ''field'' = otherfield \<and>
      dict_get d ''val'' = PNone \<and> string_to_datetime E model (PStr n) PNone = Inr PNone \<longrightarrow>
        (map_of d ''op'' = Some operator \<and> lookup_operator operator = Inr opf \<and>
         numargs opf = 2 \<longrightarrow>
           compile E model (PDict d) = Inl ComparisonToNull) \<and>
        (map_of d ''op'' = Some (PStr ''is_null'') \<longrightarrow>
           compile E model (PDict d) = Inr (Compare Eq ?f (Lit PNone))) \<and>
        (map_of d ''op'' = Some (PStr ''is_not_null'') \<longrightarrow>
           compile E model (PDict d) = Inr (Compare Ne ?f (Lit PNone))))"
    using binary [of operator] null not_null
      leaf [of operator] leaf [of "PStr ''is_null''"] leaf [of "PStr ''is_not_null''"]
    by (simp del: create_filter.simps)
qed

lemma split_author_name:
  "contains ''__'' ''author__name''"
  "py_split ''__'' ''author__name'' = [''author'', ''name'']"
  by (simp_all add: py_split_def)

lemma lookup_eq:
  "lookup_operator (PStr ''eq'') = Inr op_eq"
  "lookup_operator (PStr ''=='') = Inr op_eq"
  by (simp_all add: OPERATORS_def)

lemma test_attrs_examples:
  "attrs test_env ''Person'' ''name'' = Some (InstrumentedAttribute None)"
  "attrs test_env ''Person'' ''id'' = Some (InstrumentedAttribute None)"
  "attrs test_env ''Person'' ''comments'' =
     Some (InstrumentedAttribute (Some (''Comment'', ToMany)))"
  "attrs test_env ''Comment'' ''author'' =
     Some (InstrumentedAttribute (Some (''Person'', ToOne)))"
  "attrs test_env ''Comment'' ''content'' = Some (InstrumentedAttribute None)"
  "attrs test_env ''Article'' ''tags'' = Some (AssociationProxy ''Tag'' ToMany)"
  "attrs test_env ''Tag'' ''name'' = Some (InstrumentedAttribute None)"
  "string_to_datetime test_env m v w = Inr w"
  by (simp_all add: test_env_def test_attrs_def)

theorem comparison_to_null_witness:
  "create_filter test_env ''Person'' (Filter (PStr ''name'') (PStr ''eq'') PNone PNone) =
       Inl ComparisonToNull
   \<and> create_filter test_env ''Person'' (Filter (PStr ''name'') (PStr ''is_null'') PNone PNone) =
       Inr (Compare Eq (column ''Person'' ''name'') (Lit PNone))
   \<and> compile test_env ''Person'' (PDict [(''name'', PStr ''name''), (''op'', PStr ''eq'')]) =
       Inl ComparisonToNull
   \<and> compile test_env ''Person''
       (PDict [(''name'', PStr ''name''), (''op'', PStr ''is_not_null'')]) =
       Inr (Compare Ne (column ''Person'' ''name'') (Lit PNone))
   \<and> create_filter test_env ''Comment''
       (Filter (PStr ''author__name'') (PStr ''=='') PNone PNone) = Inl ComparisonToNull
   \<and> create_filter test_env ''Comment''
       (Filter (PStr ''author__name'') (PStr ''is_null'') PNone PNone) =
       Inr (Compare Eq
              (Field ''Comment'' ''author'' (InstrumentedAttribute (Some (''Person'', ToOne))))
              (Lit PNone))"
  using
    comparison_to_null [where E = test_env and model = "''Person''" and n = "''name''"
      and rel = "[]" and fn = "''name''" and a = "InstrumentedAttribute None"
      and otherfield = PNone and operator = "PStr ''eq''" and opf = op_eq
      and d = "[(''name'', PStr ''name''), (''op'', PStr ''eq'')]"]
    comparison_to_null [where E = test_env and model = "''Person''" and n = "''name''"
      and rel = "[]" and fn = "''name''" and a = "InstrumentedAttribute None"
      and otherfield = PNone and operator = "PStr ''is_not_null''" and opf = op_is_not_null
      and d = "[(''name'', PStr ''name''), (''op'', PStr ''is_not_null'')]"]
    comparison_to_null [where E = test_env and model = "''Comment''"
      and n = "''author__name''" and rel = "''author''" and fn = "''name''"
      and a = "InstrumentedAttribute (Some (''Person'', ToOne))"
      and otherfield = PNone and operator = "PStr ''==''" and opf = op_eq
      and d = "[]"]
    split_author_name lookup_eq test_attrs_examples
  by (simp add: dict_get_def column_def del: create_filter.simps)

lemma compile_is_null_argument:
  "compile test_env ''Person'' (leaf ''name'' ''is_null'' (PInt 5)) =
     Inr (Compare Eq (column ''Person'' ''name'') (Lit PNone))"
  by (simp add: evaluation)

text \<open>
  A unary operator with an argument compiles: \<open>_create_operation\<close> calls the lambda
  with the field alone and never looks at the argument. A binary operator without an
  argument compiles when the filter names another field. And a unary operator without
  an argument does not always compile: the field must exist.
\<close>

theorem arity_mismatch_counterexample:
  "create_filter test_env ''Person'' (Filter (PStr ''name'') (PStr ''is_null'') (PInt 5) PNone) =
     Inr (Compare Eq (column ''Person'' ''name'') (Lit PNone))
   \<and> compile test_env ''Person'' (leaf ''name'' ''is_null'' (PInt 5)) =
     Inr (Compare Eq (column ''Person'' ''name'') (Lit PNone))
   \<and> compile test_env ''Person''
     (PDict [(''name'', PStr ''age''), (''op'', PStr ''eq''), (''field'', PStr ''id'')]) =
     Inr (Compare Eq (column ''Person'' ''age'') (Col (column ''Person'' ''id'')))
   \<and> compile test_env ''Person'' (PDict [(''name'', PStr ''bogus''), (''op'', PStr ''is_null'')]) =
     Inl AttributeError"
  by (simp add: evaluation)

text \<open>
  C7, amended. An argument given with \<open>is_null\<close> or \<open>is_not_null\<close> is not an error
  and is ignored. Take a leaf filter whose name is a string \<open>n\<close>, either without
  \<open>'__'\<close> or cut by \<open>'__'\<close> into exactly two parts, whose field (the part before
  \<open>'__'\<close> if there is one and it is not empty, else the part after it, or \<open>n\<close>
  itself) is an attribute of the model, and which names no other field or one that is
  an attribute of the model: with \<open>is_null\<close> (\<open>is_not_null\<close>) \<open>_create_filter\<close> gives
  the null test on that attribute whatever the argument is, also when there is none,
  and so does parsing and compiling the dictionary of such a leaf whenever
  \<open>string_to_datetime\<close> lets its value through. A leaf filter with a binary operator,
  the argument \<open>None\<close> and no other field never compiles, and its exception is not the
  \<open>KeyError\<close> of an unknown operator; the same holds for the dictionary of such a
  leaf whose value is absent or \<open>None\<close>, when \<open>string_to_datetime\<close> gives \<open>None\<close>
  for \<open>None\<close>. When the name and the field are as above, that exception is
  \<open>ComparisonToNull\<close>.
\<close>

theorem arity_mismatch:
  "((if contains ''__'' n then py_split ''__'' n = [rel, fn] else rel = [] \<and> fn = n) \<and>
    attrs E model (if rel = [] then fn else rel) = Some a \<and>
    (truthy otherfield \<longrightarrow> (\<exists>f. getattr E model otherfield = Inr f)) \<longrightarrow>
      create_filter E model (Filter (PStr n) (PStr ''is_null'') argument otherfield) =
        Inr (Compare Eq (Field model (if rel = [] then fn else rel) a) (Lit PNone)) \<and>
      create_filter E model (Filter (PStr n) (PStr ''is_not_null'') argument otherfield) =
        Inr (Compare Ne (Field model (if rel = [] then fn else rel) a) (Lit PNone)) \<and>
      (map_of d ''or'' = None \<and> map_of d ''and'' = None \<and>
       map_of d ''name'' = Some (PStr n) \<and> dict_get d ''field'' = otherfield \<and>
       string_to_datetime E model (PStr n) (dict_get d ''val'') = Inr argument \<longrightarrow>
         (map_of d ''op'' = Some (PStr ''is_null'') \<longrightarrow>
            compile E model (PDict d) =
            Inr (Compare Eq (Field model (if rel = [] then fn else rel) a) (Lit PNone))) \<and>
         (map_of d ''op'' = Some (PStr ''is_not_null'') \<longrightarrow>
            compile E model (PDict d) =
            Inr (Compare Ne (Field model (if rel = [] then fn else rel) a) (Lit PNone)))))
   \<and> (lookup_operator operator = Inr opf \<and> numargs opf = 2 \<and> \<not> truthy otherfield \<longrightarrow>
        (\<exists>e. create_filter E model (Filter fieldname operator PNone otherfield) = Inl e \<and>
              e \<noteq> KeyError) \<and>
        (map_of d ''or'' = None \<and> map_of d ''and'' = None \<and>
         dict_get d ''name'' = fieldname \<and> dict_get d ''op'' = operator \<and>
         dict_get d ''field'' = otherfield \<and> dict_get d ''val'' = PNone \<and>
         string_to_datetime E model fieldname PNone = Inr PNone \<longrightarrow>
           (\<exists>e. compile E model (PDict d) = Inl e \<and> e \<noteq> KeyError)) \<and>
        (fieldname = PStr n \<and>
         (if contains ''__'' n then py_split ''__'' n = [rel, fn] else rel = [] \<and> fn = n) \<and>
         attrs E model (if rel = [] then fn else rel) = Some a \<longrightarrow>
           create_filter E model (Filter fieldname operator PNone otherfield) =
           Inl ComparisonToNull))"
proof (intro conjI impI)
  assume h: "(if contains ''__'' n then py_split ''__'' n = [rel, fn] else rel = [] \<and> fn = n) \<and>
    attrs E model (if rel = [] then fn else rel) = Some a \<and>
    (truthy otherfield \<longrightarrow> (\<exists>f. getattr E model otherfield = Inr f))"
  then have name: "if contains ''__'' n then py_split ''__'' n = [rel, fn]
      else rel = [] \<and> fn = n"
    and attr: "attrs E model (if rel = [] then fn else rel) = Some a"
    and other: "truthy otherfield \<longrightarrow> (\<exists>f. getattr E model otherfield = Inr f)"
    by simp_all
  let ?f = "Field model (if rel = [] then fn else rel) a"
  show null: "create_filter E model (Filter (PStr n) (PStr ''is_null'') argument otherfield) =
        Inr (Compare Eq ?f (Lit PNone))"
    using create_filter_unary [OF name attr other lookup_is_null(1), of argument] by simp
  show not_null:
    "create_filter E model (Filter (PStr n) (PStr ''is_not_null'') argument otherfield) =
        Inr (Compare Ne ?f (Lit PNone))"
    using create_filter_unary [OF name attr other lookup_is_null(2), of argument] by simp
  assume d: "map_of d ''or'' = None \<and> map_of d ''and'' = None \<and>
       map_of d ''name'' = Some (PStr n) \<and> dict_get d ''field'' = otherfield \<and>
       string_to_datetime E model (PStr n) (dict_get d ''val'') = Inr argument"
  have leaf: "compile E model (PDict d) =
      create_filter E model (Filter (PStr n) oper argument otherfield)"
    if "map_of d ''op'' = Some oper" for oper
    using that d compile_leaf [of d E model argument]
    by (simp add: dict_get_Some del: create_filter.simps)
  { assume "map_of d ''op'' = Some (PStr ''is_null'')"
    then show "compile E model (PDict d) = Inr (Compare Eq ?f (Lit PNone))"
      using leaf null by (simp del: create_filter.simps) }
  { assume "map_of d ''op'' = Some (PStr ''is_not_null'')"
    then show "compile E model (PDict d) = Inr (Compare Ne ?f (Lit PNone))"
      using leaf not_null by (simp del: create_filter.simps) }
next
  assume b: "lookup_operator operator = Inr opf \<and> numargs opf = 2 \<and> \<not> truthy otherfield"
  then show "\<exists>e. create_filter E model (Filter fieldname operator PNone otherfield) = Inl e \<and>
              e \<noteq> KeyError"
    using create_filter_null_error [of operator opf otherfield E model fieldname] by simp
  assume d: "map_of d ''or'' = None \<and> map_of d ''and'' = None \<and>
         dict_get d ''name'' = fieldname \<and> dict_get d ''op'' = operator \<and>
         dict_get d ''field'' = otherfield \<and> dict_get d ''val'' = PNone \<and>
         string_to_datetime E model fieldname PNone = Inr PNone"
  then have "compile E model (PDict d) =
      create_filter E model (Filter fieldname operator PNone otherfield)"
    using compile_leaf [of d E model PNone] by (simp del: create_filter.simps)
  then show "\<exists>e. compile E model (PDict d) = Inl e \<and> e \<noteq> KeyError"
    using b create_filter_null_error [of operator opf otherfield E model fieldname]
    by (simp del: create_filter.simps)
next
  assume b: "lookup_operator operator = Inr opf \<and> numargs opf = 2 \<and> \<not> truthy otherfield"
    and r: "fieldname = PStr n \<and>
         (if contains ''__'' n then py_split ''__'' n = [rel, fn] else rel = [] \<and> fn = n) \<and>
         attrs E model (if rel = [] then fn else rel) = Some a"
  then show "create_filter E model (Filter fieldname operator PNone otherfield) =
           Inl ComparisonToNull"
    using create_filter_null [of n rel fn E model a otherfield operator opf]
    by (simp del: create_filter.simps)
qed

theorem arity_mismatch_witness:
  "create_filter test_env ''Person'' (Filter (PStr ''name'') (PStr ''is_null'') (PInt 5) PNone) =
       Inr (Compare Eq (column ''Person'' ''name'') (Lit PNone))
   \<and> create_filter test_env ''Person''
       (Filter (PStr ''name'') (PStr ''is_not_null'') PNone (PStr ''id'')) =
       Inr (Compare Ne (column ''Person'' ''name'') (Lit PNone))
   \<and> compile test_env ''Person'' (leaf ''name'' ''is_null'' (PInt 5)) =
       Inr (Compare Eq (column ''Person'' ''name'') (Lit PNone))
   \<and> create_filter test_env ''Person'' (Filter (PStr ''name'') (PStr ''=='') PNone PNone) =
       Inl ComparisonToNull
   \<and> (\<exists>e. create_filter test_env ''Person'' (Filter (PInt 3) (PStr ''=='') PNone PNone) =
            Inl e \<and> e \<noteq> KeyError)
   \<and> (\<exists>e. compile test_env ''Person'' (PDict [(''name'', PStr ''name''), (''op'', PStr ''=='')]) =
            Inl e \<and> e \<noteq> KeyError)"
proof -
  have g: "getattr test_env ''Person'' (PStr ''id'') = Inr (column ''Person'' ''id'')"
    by (simp add: test_env_def test_attrs_def column_def)
  show ?thesis
    using
      arity_mismatch [where E = test_env and model = "''Person''" and n = "''name''"
        and rel = "[]" and fn = "''name''" and a = "InstrumentedAttribute None"
        and otherfield = PNone and argument = "PInt 5"
        and operator = "PStr ''==''" and opf = op_eq and fieldname = "PStr ''name''"
        and d = "[(''name'', PStr ''name''), (''op'', PStr ''is_null''), (''val'', PInt 5)]"]
      arity_mismatch [where E = test_env and model = "''Person''" and n = "''name''"
        and rel = "[]" and fn = "''name''" and a = "InstrumentedAttribute None"
        and otherfield = "PStr ''id''" and argument = PNone
        and operator = "PStr ''==''" and opf = op_eq and fieldname = "PInt 3"
        and d = "[]"]
      arity_mismatch [where E = test_env and model = "''Person''" and n = "''name''"
        and rel = "[]" and fn = "''name''" and a = "InstrumentedAttribute None"
        and otherfield = PNone and argument = PNone
        and operator = "PStr ''==''" and opf = op_eq and fieldname = "PInt 3"
        and d = "[]"]
      arity_mismatch [where E = test_env and model = "''Person''" and n = "''name''"
        and rel = "[]" and fn = "''name''" and a = "InstrumentedAttribute None"
        and otherfield = PNone and argument = PNone
        and operator = "PStr ''==''" and opf = op_eq and fieldname = "PStr ''name''"
        and d = "[(''name'', PStr ''name''), (''op'', PStr ''=='')]"]
      g lookup_eq test_attrs_examples
    by (simp add: dict_get_def column_def leaf_def del: create_filter.simps)
qed

section \<open>Filter specifications that lack a key or have one too many\<close>

lemma from_dictionary_or:
  "map_of d ''or'' = Some v \<Longrightarrow>
   from_dictionary E model (PDict d) =
     (case py_iter v of
        Inl e \<Rightarrow> Inl e
      | Inr subfilters \<Rightarrow>
          (case traverse (from_dictionary E model) subfilters of
             Inl e \<Rightarrow> Inl e
           | Inr fs \<Rightarrow> Inr (DisjunctionFilter fs)))"
  by (subst from_dictionary.simps) (simp add: has_key_def dict_get_def)

lemma from_dictionary_and:
  "map_of d ''or'' = None \<Longrightarrow> map_of d ''and'' = Some v \<Longrightarrow>
   from_dictionary E model (PDict d) =
     (case py_iter v of
        Inl e \<Rightarrow> Inl e
      | Inr subfilters \<Rightarrow>
          (case traverse (from_dictionary E model) subfilters of
             Inl e \<Rightarrow> Inl e
           | Inr fs \<Rightarrow> Inr (ConjunctionFilter fs)))"
  by (subst from_dictionary.simps) (simp add: has_key_def dict_get_def)

lemma compile_both_keys:
  assumes "map_of d ''or'' = Some v"
  shows "compile E model (PDict d) = compile E model (PDict [(''or'', v)])"
  unfolding compile_def from_dictionary_or [OF assms]
  by (subst from_dictionary_or [of "[(''or'', v)]" v]) simp_all

lemma create_filter_no_name:
  "create_filter E model (Filter PNone operator argument otherfield) = Inl TypeError"
  by simp

lemma create_operation_no_operator:
  "lookup_operator operator = Inl err \<Longrightarrow>
   create_operation E model fieldname operator argument relation = Inl err"
  by (simp add: create_operation.simps)

lemma create_filter_no_operator:
  assumes "lookup_operator operator = Inl err"
  shows "\<exists>e. create_filter E model (Filter fieldname operator argument otherfield) = Inl e"
  by (auto simp: create_operation_no_operator [OF assms] split: sum.splits prod.splits)

lemma compile_both_keys_example:
  "compile test_env ''Person''
     (PDict [(''or'', PList [leaf ''name'' ''eq'' (PStr ''John'')]),
             (''and'', PList [leaf ''age'' ''ge'' (PInt 10)])]) =
   Inr (Or [Compare Eq (column ''Person'' ''name'') (Lit (PStr ''John''))])"
  by (simp add: evaluation)

text \<open>
  The module has no exception for a malformed filter. A dictionary with both \<open>'or'\<close> and
  \<open>'and'\<close> compiles, to the disjunction of its \<open>'or'\<close> list; a leaf without \<open>'op'\<close>
  raises the same \<open>KeyError\<close> as a leaf with an operator that is not in the table.
\<close>

theorem malformed_filters_counterexample:
  "compile test_env ''Person''
     (PDict [(''or'', PList [leaf ''name'' ''eq'' (PStr ''John'')]),
             (''and'', PList [leaf ''age'' ''ge'' (PInt 10)])]) =
   Inr (Or [Compare Eq (column ''Person'' ''name'') (Lit (PStr ''John''))])
   \<and> compile test_env ''Person'' (PDict [(''name'', PStr ''age''), (''val'', PInt 3)]) =
     Inl KeyError
   \<and> compile test_env ''Person'' (PDict [(''name'', PStr ''age''), (''op'', PStr ''bogus''),
        (''val'', PInt 3)]) = Inl KeyError"
  by (simp add: evaluation)

text \<open>
  C8, amended. A dictionary with the keys \<open>'or'\<close> and \<open>'and'\<close> is not rejected: it
  compiles exactly as the dictionary with its \<open>'or'\<close> entry alone. A leaf without
  \<open>'name'\<close> never compiles, and raises \<open>TypeError\<close> once \<open>string_to_datetime\<close> has let
  its value through; a leaf without \<open>'op'\<close> never compiles, and raises \<open>KeyError\<close>, the
  exception of an unknown operator, when its name is a string without \<open>'__'\<close>, it names
  no other field and \<open>string_to_datetime\<close> has let its value through.
\<close>

theorem malformed_filters:
  "(map_of d ''or'' = Some v \<longrightarrow>
      compile E model (PDict d) = compile E model (PDict [(''or'', v)]))
   \<and> (map_of d ''or'' = None \<and> map_of d ''and'' = None \<and> map_of d ''name'' = None \<longrightarrow>
        (\<exists>e. compile E model (PDict d) = Inl e) \<and>
        (\<forall>a. string_to_datetime E model PNone (dict_get d ''val'') = Inr a \<longrightarrow>
             compile E model (PDict d) = Inl TypeError))
   \<and> (map_of d ''or'' = None \<and> map_of d ''and'' = None \<and> map_of d ''op'' = None \<longrightarrow>
        (\<exists>e. compile E model (PDict d) = Inl e) \<and>
        (\<forall>n a. map_of d ''name'' = Some (PStr n) \<and> \<not> contains ''__'' n \<and>
               \<not> truthy (dict_get d ''field'') \<and>
               string_to_datetime E model (PStr n) (dict_get d ''val'') = Inr a \<longrightarrow>
             compile E model (PDict d) = Inl KeyError))"
proof (intro conjI impI allI)
  assume "map_of d ''or'' = Some v"
  then show "compile E model (PDict d) = compile E model (PDict [(''or'', v)])"
    by (rule compile_both_keys)
next
  assume a: "map_of d ''or'' = None \<and> map_of d ''and'' = None \<and> map_of d ''name'' = None"
  then have f: "from_dictionary E model (PDict d) =
     (case string_to_datetime E model PNone (dict_get d ''val'') of
        Inl e \<Rightarrow> Inl e
      | Inr argument \<Rightarrow> Inr (Filter PNone (dict_get d ''op'') argument (dict_get d ''field'')))"
    by (simp add: from_dictionary_leaf dict_get_None cong: sum.case_cong)
  show "\<exists>e. compile E model (PDict d) = Inl e"
    unfolding compile_def f
    by (cases "string_to_datetime E model PNone (dict_get d ''val'')") simp_all
  fix arg
  assume "string_to_datetime E model PNone (dict_get d ''val'') = Inr arg"
  then show "compile E model (PDict d) = Inl TypeError"
    unfolding compile_def f by simp
next
  assume a: "map_of d ''or'' = None \<and> map_of d ''and'' = None \<and> map_of d ''op'' = None"
  then have f: "from_dictionary E model (PDict d) =
     (case string_to_datetime E model (dict_get d ''name'') (dict_get d ''val'') of
        Inl e \<Rightarrow> Inl e
      | Inr argument \<Rightarrow> Inr (Filter (dict_get d ''name'') PNone argument (dict_get d ''field'')))"
    by (simp add: from_dictionary_leaf dict_get_None cong: sum.case_cong)
  have k: "lookup_operator PNone = Inl KeyError" by simp
  show "\<exists>e. compile E model (PDict d) = Inl e"
  proof (cases "string_to_datetime E model (dict_get d ''name'') (dict_get d ''val'')")
    case (Inl e)
    then show ?thesis unfolding compile_def f by simp
  next
    case (Inr arg)
    then show ?thesis
      unfolding compile_def f
      using create_filter_no_operator [OF k, of E model "dict_get d ''name''" arg
          "dict_get d ''field''"]
      by (simp del: create_filter.simps)
  qed
  fix n arg
  assume "map_of d ''name'' = Some (PStr n) \<and> \<not> contains ''__'' n \<and>
               \<not> truthy (dict_get d ''field'') \<and>
               string_to_datetime E model (PStr n) (dict_get d ''val'') = Inr arg"
  then show "compile E model (PDict d) = Inl KeyError"
    unfolding compile_def f
    by (simp add: dict_get_Some create_operation_no_operator [OF k])
qed

theorem malformed_filters_witness:
  "compile test_env ''Person''
     (PDict [(''or'', PList [leaf ''name'' ''eq'' (PStr ''John'')]),
             (''and'', PList [leaf ''age'' ''ge'' (PInt 10)])]) =
   compile test_env ''Person'' (PDict [(''or'', PList [leaf ''name'' ''eq'' (PStr ''John'')])])
   \<and> compile test_env ''Person'' (PDict [(''op'', PStr ''==''), (''val'', PStr ''foo'')]) =
     Inl TypeError
   \<and> compile test_env ''Person'' (PDict [(''name'', PStr ''age''), (''val'', PInt 3)]) =
     Inl KeyError"
  using
    malformed_filters [where E = test_env and model = "''Person''"
      and v = "PList [leaf ''name'' ''eq'' (PStr ''John'')]"
      and d = "[(''or'', PList [leaf ''name'' ''eq'' (PStr ''John'')]),
                (''and'', PList [leaf ''age'' ''ge'' (PInt 10)])]"]
    malformed_filters [where E = test_env and model = "''Person''"
      and v = PNone and d = "[(''op'', PStr ''==''), (''val'', PStr ''foo'')]"]
    malformed_filters [where E = test_env and model = "''Person''"
      and v = PNone and d = "[(''name'', PStr ''age''), (''val'', PInt 3)]"]
  by (simp add: test_env_def dict_get_def)

section \<open>Empty junctions\<close>

lemma create_query_empty_junction:
  "create_query E model (PList [PDict [(k, PList [])]]) None None True =
   Inr ((session_query model)
      \<lparr>criteria := [if k = ''or'' then Or [] else And []]\<rparr>)" if "k = ''or'' \<or> k = ''and''"
  using that
  by (auto simp: create_query_def from_dictionary.simps has_key_def dict_get_def)

text \<open>
  Nothing rejects a junction with no sub-filters: \<open>create_query\<close> returns a query whose
  only criterion is \<open>and_()\<close> or \<open>or_()\<close> of no clauses.
\<close>

theorem empty_junction_counterexample:
  "create_query test_env ''Person'' (PList [PDict [(''and'', PList [])]]) None None False =
   Inr \<lparr>entity = ''Person'', criteria = [And []], joins = [],
        order_clauses = [Asc (column ''Person'' ''id'')], group_clauses = []\<rparr>
   \<and> create_query test_env ''Person'' (PList [PDict [(''or'', PList [])]]) None None False =
   Inr \<lparr>entity = ''Person'', criteria = [Or []], joins = [],
        order_clauses = [Asc (column ''Person'' ''id'')], group_clauses = []\<rparr>"
  by (simp add: create_query_def session_query_def evaluation)

text \<open>
  C9, amended. A junction whose \<open>'or'\<close> key maps to the empty list, or that has no
  \<open>'or'\<close> key and whose \<open>'and'\<close> key maps to the empty list, is parsed and compiled
  without an exception, to \<open>or_()\<close> or \<open>and_()\<close> of no clauses, and \<open>create_query\<close>
  returns a query with that clause as its criterion.
\<close>

theorem empty_junction:
  "(map_of d ''or'' = Some (PList []) \<longrightarrow> compile E model (PDict d) = Inr (Or []))
   \<and> (map_of d ''or'' = None \<and> map_of d ''and'' = Some (PList []) \<longrightarrow>
        compile E model (PDict d) = Inr (And []))
   \<and> create_query E model (PList [PDict [(''or'', PList [])]]) None None True =
       Inr ((session_query model)\<lparr>criteria := [Or []]\<rparr>)
   \<and> create_query E model (PList [PDict [(''and'', PList [])]]) None None True =
       Inr ((session_query model)\<lparr>criteria := [And []]\<rparr>)"
  using create_query_empty_junction [of "''or''" E model]
    create_query_empty_junction [of "''and''" E model]
  by (simp add: compile_def from_dictionary_or from_dictionary_and)

theorem empty_junction_witness:
  "compile test_env ''Person'' (PDict [(''or'', PList [])]) = Inr (Or [])
   \<and> compile test_env ''Person'' (PDict [(''and'', PList [])]) = Inr (And [])"
  using
    empty_junction [where E = test_env and model = "''Person''" and d = "[(''or'', PList [])]"]
    empty_junction [where E = test_env and model = "''Person''" and d = "[(''and'', PList [])]"]
  by simp

section \<open>Sub-filters of \<open>has\<close> and \<open>any\<close>\<close>

lemma lookup_has_any:
  "lookup_operator (PStr ''has'') = Inr op_has"
  "lookup_operator (PStr ''any'') = Inr op_any"
  by (simp_all add: OPERATORS_def)

lemma create_operation_ternary:
  assumes "lookup_operator operator = Inr opf" and "numargs opf = 3"
  shows "create_operation E model fieldname operator argument relation =
     (case getattr E model (if truthy relation then relation else fieldname) of
        Inl e \<Rightarrow> Inl e
      | Inr fld \<Rightarrow>
          if argument = Lit PNone then Inl ComparisonToNull
          else if \<not> queryable (cls fld) then Inl AttributeError
          else (case sub_operator E fld argument fieldname of
                  Inl e \<Rightarrow> Inl e
                | Inr sub \<Rightarrow> call3 opf fld sub))"
  using assms by (simp add: create_operation.simps cong: sum.case_cong if_cong)

lemma sub_operator_no_mapper:
  "cls fld = InstrumentedAttribute None \<Longrightarrow>
   sub_operator E fld argument fieldname = Inl AttributeError"
  by (subst sub_operator.simps) simp


lemma sub_operator_other:
  assumes "cls fld = OtherAttribute \<or> cls fld = PlainObject"
  shows "sub_operator E fld argument fieldname =
     (case argument of
        Lit (PDict d) \<Rightarrow>
          (case map_of d ''name'' of
             None \<Rightarrow> Inl KeyError
           | Some fieldname' \<Rightarrow>
               (case map_of d ''op'' of
                  None \<Rightarrow> Inl KeyError
                | Some operator \<Rightarrow>
                    (case py_in ''__'' fieldname' of
                       Inl e \<Rightarrow> Inl e
                     | Inr delim \<Rightarrow>
                         (case (if delim
                                then (case split_pair ''__'' fieldname' of
                                        Inl e \<Rightarrow> Inl e
                                      | Inr (a, b) \<Rightarrow> Inr (PStr a, PStr b))
                                else Inr (fieldname', PNone)) of
                            Inl e \<Rightarrow> Inl e
                          | Inr (fieldname'', relation) \<Rightarrow> Inl UnboundLocalError))))
      | _ \<Rightarrow> Inl UnboundLocalError)"
  using assms
  by (subst sub_operator.simps)
     (auto split: operand.splits pyval.splits option.splits sum.splits prod.splits)


















section \<open>The undefined related model\<close>

lemma split_pair_two:
  "length (py_split sep s) = 2 \<Longrightarrow> \<exists>a b. split_pair sep (PStr s) = Inr (a, b)"
  by (cases "py_split sep s" rule: list.exhaust; simp)
     (auto simp: length_Suc_conv split: list.splits)

lemma create_operation_unbound:
  assumes op: "operator = PStr ''has'' \<or> operator = PStr ''any''"
    and g: "getattr E model (if truthy relation then relation else fieldname) = Inr fld"
    and other: "cls fld = OtherAttribute"
    and nonnull: "argument \<noteq> Lit PNone"
    and dict: "\<forall>d. argument = Lit (PDict d) \<longrightarrow>
        (\<exists>s oper. map_of d ''name'' = Some (PStr s) \<and> map_of d ''op'' = Some oper \<and>
           (contains ''__'' s \<longrightarrow> length (py_split ''__'' s) = 2))"
  shows "create_operation E model fieldname operator argument relation = Inl UnboundLocalError"
proof -
  from op obtain opf where l: "lookup_operator operator = Inr opf" and n: "numargs opf = 3"
    using lookup_has_any by auto
  have "sub_operator E fld argument fieldname = Inl UnboundLocalError"
  proof (cases "\<exists>d. argument = Lit (PDict d)")
    case False
    then show ?thesis
      unfolding sub_operator_other [OF disjI1 [OF other]]
      by (auto split: operand.splits pyval.splits)
  next
    case True
    then obtain d where d: "argument = Lit (PDict d)" by blast
    with dict obtain s oper where
      "map_of d ''name'' = Some (PStr s)" and "map_of d ''op'' = Some oper"
      and len: "contains ''__'' s \<longrightarrow> length (py_split ''__'' s) = 2"
      by blast
    then show ?thesis
      unfolding sub_operator_other [OF disjI1 [OF other]] d
      using split_pair_two [of "''__''" s]
      by (cases "contains ''__'' s") (auto simp del: split_pair.simps)
  qed
  then show ?thesis
    unfolding create_operation_ternary [OF l n] using g nonnull other by simp
qed

text \<open>
  A \<open>has\<close> filter on an attribute that is neither instrumented nor a proxy does not
  always end in \<open>UnboundLocalError\<close>: without an argument it raises
  \<open>ComparisonToNull\<close> before \<open>_sub_operator\<close> is called, and with a dictionary that
  lacks \<open>'name'\<close> it raises \<open>KeyError\<close> before \<open>submodel\<close> is used. On a plain object
  the lookup of \<open>has\<close> raises \<open>AttributeError\<close> before \<open>_sub_operator\<close> is called. A
  \<open>has\<close> filter on a column takes the first branch of \<open>_sub_operator\<close>, where the
  column property has no mapper.
\<close>

theorem sub_operator_unbound_counterexample:
  "create_filter test_env ''Comment'' (Filter (PStr ''writer'') (PStr ''has'') PNone PNone) =
     Inl ComparisonToNull
   \<and> compile test_env ''Comment''
       (leaf ''writer'' ''has'' (PDict [(''op'', PStr ''eq''), (''val'', PInt 1)])) =
     Inl KeyError
   \<and> compile test_env ''Person'' (leaf ''metadata'' ''has'' (PInt 1)) = Inl AttributeError
   \<and> compile test_env ''Person'' (leaf ''name'' ''has'' (PInt 1)) = Inl AttributeError"
  by (simp add: evaluation)

text \<open>
  C10, amended. A \<open>has\<close> or \<open>any\<close> operation whose field is a queryable attribute of
  the model that is neither an instrumented attribute nor an association proxy, and whose
  argument is not \<open>None\<close> and is either no dictionary or a dictionary with an \<open>'op'\<close>
  key and a string under \<open>'name'\<close> that holds \<open>'__'\<close> at most once, raises
  \<open>UnboundLocalError\<close>.
\<close>

theorem sub_operator_unbound:
  "(operator = PStr ''has'' \<or> operator = PStr ''any'') \<and>
   getattr E model (if truthy relation then relation else fieldname) = Inr fld \<and>
   cls fld = OtherAttribute \<and> argument \<noteq> Lit PNone \<and>
   (\<forall>d. argument = Lit (PDict d) \<longrightarrow>
      (\<exists>s oper. map_of d ''name'' = Some (PStr s) \<and> map_of d ''op'' = Some oper \<and>
         (contains ''__'' s \<longrightarrow> length (py_split ''__'' s) = 2)))
   \<longrightarrow> create_operation E model fieldname operator argument relation = Inl UnboundLocalError"
  using create_operation_unbound [of operator E model relation fieldname fld argument]
  by blast

theorem sub_operator_unbound_witness:
  "getattr test_env ''Comment'' (PStr ''writer'') =
     Inr (Field ''Comment'' ''writer'' OtherAttribute)
   \<and> create_operation test_env ''Comment'' (PStr ''writer'') (PStr ''has'') (Lit (PInt 1))
       PNone = Inl UnboundLocalError
   \<and> create_operation test_env ''Comment'' (PStr ''writer'') (PStr ''any'')
       (Lit (PDict [(''name'', PStr ''id''), (''op'', PStr ''eq''), (''val'', PInt 1)]))
       PNone = Inl UnboundLocalError"
proof -
  have g: "getattr test_env ''Comment'' (PStr ''writer'') =
     Inr (Field ''Comment'' ''writer'' OtherAttribute)"
    by (simp add: test_env_def test_attrs_def)
  show ?thesis
    using g
      sub_operator_unbound [where E = test_env and model = "''Comment''"
        and fieldname = "PStr ''writer''" and relation = PNone
        and fld = "Field ''Comment'' ''writer'' OtherAttribute"
        and operator = "PStr ''has''" and argument = "Lit (PInt 1)"]
      sub_operator_unbound [where E = test_env and model = "''Comment''"
        and fieldname = "PStr ''writer''" and relation = PNone
        and fld = "Field ''Comment'' ''writer'' OtherAttribute"
        and operator = "PStr ''any''"
        and argument = "Lit (PDict [(''name'', PStr ''id''), (''op'', PStr ''eq''),
                                    (''val'', PInt 1)])"]
    by simp
qed

end
